theory Spec2Isabelle
  imports Main
begin

section \<open>The cleaning-rule engine of \<^verbatim>\<open>cdr_cleaner/clean_cdr_engine.py\<close>\<close>

subsection \<open>Python values, dictionaries and exceptions\<close>

text \<open>
  The values that occur in query dictionaries and keyword arguments: \<^verbatim>\<open>None\<close>, strings
  and booleans. \<open>py_str\<close> is the text an f-string puts for a value.
\<close>

datatype pyval = PNone | PStr string | PBool bool

fun py_str :: "pyval \<Rightarrow> string" where
  "py_str PNone = ''None''"
| "py_str (PStr s) = s"
| "py_str (PBool True) = ''True''"
| "py_str (PBool False) = ''False''"

text \<open>The truth value of a value in \<^verbatim>\<open>if v\<close> and \<^verbatim>\<open>not v\<close>.\<close>

fun truthy :: "pyval \<Rightarrow> bool" where
  "truthy PNone = False"
| "truthy (PStr s) = (s \<noteq> [])"
| "truthy (PBool b) = b"

text \<open>
  Modelled from the spec: the key constants of \<^verbatim>\<open>constants.cdr_cleaner.clean_cdr\<close>
  (\<^verbatim>\<open>QUERY\<close>, \<^verbatim>\<open>DESTINATION_TABLE\<close>, \<^verbatim>\<open>DESTINATION_DATASET\<close>, \<^verbatim>\<open>LEGACY_SQL\<close>,
  \<^verbatim>\<open>DISPOSITION\<close>) are not among the sources. The fields of a query specification they
  name are five different keys; every other key of a dictionary is an \<open>OtherKey\<close>.
\<close>

datatype key = QUERY | DESTINATION_TABLE | DESTINATION_DATASET | LEGACY_SQL | DISPOSITION
  | OtherKey string

type_synonym query_dict = "key \<rightharpoonup> pyval"

text \<open>\<^verbatim>\<open>d.get(k)\<close> and \<^verbatim>\<open>d.get(k, default)\<close>: a missing key gives \<^verbatim>\<open>None\<close> or the default,
  a key that is present gives its value, also when that value is \<^verbatim>\<open>None\<close>.\<close>

definition dict_get :: "query_dict \<Rightarrow> key \<Rightarrow> pyval" where
  "dict_get d k = (case d k of None \<Rightarrow> PNone | Some v \<Rightarrow> v)"

definition dict_get_default :: "query_dict \<Rightarrow> key \<Rightarrow> pyval \<Rightarrow> pyval" where
  "dict_get_default d k dflt = (case d k of None \<Rightarrow> dflt | Some v \<Rightarrow> v)"

text \<open>The descriptive part of \<^verbatim>\<open>rule_info\<close>: function name, module name, line number.\<close>

record metadata =
  function_name :: string
  rule_module :: string
  line_no :: nat

text \<open>
  Exceptions. \<open>ValueError\<close> is the one of \<^verbatim>\<open>get_custom_kwargs\<close> (the missing parameter
  names and the rule's name); \<open>RuntimeError\<close> is the one \<^verbatim>\<open>run_queries\<close> would build
  from a rendered message and keeps what that message is rendered from (project, the
  job's id and error list, the rule's metadata, the query text).
  \<open>GoogleCloudError\<close> and \<open>TOError\<close> are the two kinds \<^verbatim>\<open>run_queries\<close> catches;
  \<open>OtherError\<close> is any other exception raised by code outside the engine.
\<close>

datatype error =
    ValueError "string list" string
  | KeyError key
  | IndexError
  | TypeError string
  | AttributeError string
  | OSError string
  | RuntimeError string string "string list" metadata pyval
  | GoogleCloudError string
  | TOError
  | OtherError string

subsection \<open>Job configuration\<close>

text \<open>
  \<^verbatim>\<open>gbq.TableReference\<close> and \<^verbatim>\<open>gbq.job.QueryJobConfig\<close>. A property of a configuration
  that was never assigned reads as \<^verbatim>\<open>None\<close>, which is what \<open>QueryJobConfig\<close> holds.
\<close>

record table_ref =
  ref_project :: string
  ref_dataset_id :: string
  ref_table_id :: string

record job_config =
  destination :: "table_ref option"
  use_legacy_sql :: pyval
  allow_large_results :: pyval
  write_disposition :: pyval

definition QueryJobConfig :: job_config where
  "QueryJobConfig =
     \<lparr>destination = None, use_legacy_sql = PNone, allow_large_results = PNone,
      write_disposition = PNone\<rparr>"

text \<open>Modelled from the spec: \<^verbatim>\<open>bq_consts.WRITE_EMPTY\<close>, the default write disposition,
  is not among the sources.\<close>

definition WRITE_EMPTY :: pyval where
  "WRITE_EMPTY = PStr ''WRITE_EMPTY''"

text \<open>
  \<^verbatim>\<open>generate_job_config(project_id, query_dict)\<close>. The library function
  \<^verbatim>\<open>gbq.TableReference.from_string\<close> is a parameter: it parses the full table id or
  raises. \<^verbatim>\<open>query_dict[DESTINATION_DATASET]\<close> raises \<open>KeyError\<close> when the key is missing;
  \<^verbatim>\<open>query_dict[DESTINATION_TABLE]\<close> cannot, after the test above it.
\<close>

definition generate_job_config ::
  "(string \<Rightarrow> error + table_ref) \<Rightarrow> string \<Rightarrow> query_dict \<Rightarrow> error + job_config" where
  "generate_job_config from_string project_id query_dict =
     (let job_config = QueryJobConfig in
      if dict_get query_dict DESTINATION_TABLE = PNone then Inr job_config
      else
        (case query_dict DESTINATION_DATASET of
           None \<Rightarrow> Inl (KeyError DESTINATION_DATASET)
         | Some dataset \<Rightarrow>
             (case from_string (project_id @ ''.'' @ py_str dataset @ ''.'' @
                                  py_str (dict_get query_dict DESTINATION_TABLE)) of
                Inl e \<Rightarrow> Inl e
              | Inr destination_table \<Rightarrow>
                  (let job_config = job_config\<lparr>destination := Some destination_table\<rparr>;
                       job_config = job_config\<lparr>use_legacy_sql :=
                                      dict_get_default query_dict LEGACY_SQL (PBool False)\<rparr>;
                       job_config = job_config\<lparr>allow_large_results :=
                                      use_legacy_sql job_config\<rparr>;
                       job_config = job_config\<lparr>write_disposition :=
                                      dict_get_default query_dict DISPOSITION WRITE_EMPTY\<rparr>
                   in Inr job_config))))"

text \<open>\<^verbatim>\<open>s.split('.')\<close>: the parts of a string between its dots, never an empty list.\<close>

fun split_dots :: "string \<Rightarrow> string \<Rightarrow> string list" where
  "split_dots acc [] = [rev acc]"
| "split_dots acc (c # cs) =
     (if c = CHR ''.'' then rev acc # split_dots [] cs else split_dots (c # acc) cs)"

text \<open>
  A stand-in for the library's \<^verbatim>\<open>from_string\<close>, used where a concrete one is needed:
  the full id is cut at its dots and must have three parts.
\<close>

definition from_string_3 :: "string \<Rightarrow> error + table_ref" where
  "from_string_3 full_id =
     (case split_dots [] full_id of
        [p, d, t] \<Rightarrow> Inr \<lparr>ref_project = p, ref_dataset_id = d, ref_table_id = t\<rparr>
      | _ \<Rightarrow> Inl (ValueError [] full_id))"

subsection \<open>The warehouse, jobs and the observable effects\<close>

text \<open>
  The arguments of one \<^verbatim>\<open>client.query\<close> call, and the job it returns once
  \<^verbatim>\<open>query_job.result()\<close> has returned: its id, what it was submitted with and its error
  list (empty for \<^verbatim>\<open>None\<close>).
\<close>

record submission =
  query :: pyval
  sub_job_config :: job_config
  job_id_prefix :: string

record query_job =
  job_id :: string
  submitted_as :: submission
  errors :: "string list"

text \<open>
  What the warehouse does with a submission: \<^verbatim>\<open>client.query\<close> raises, or it returns a job
  with an id, whose \<^verbatim>\<open>result()\<close> raises or returns with the job's error list.
\<close>

datatype job_result = ResultRaises error | Completed "string list"

datatype submit_outcome = SubmitRaises error | Submitted string job_result

text \<open>
  The client: its project, its credentials, and the behaviour of the warehouse behind
  it, which may depend on everything submitted before.
\<close>

record client =
  project :: string
  credentials :: "string option"
  run_job :: "submission list \<Rightarrow> submission \<Rightarrow> submit_outcome"

text \<open>The records \<^verbatim>\<open>LOGGER\<close> receives, as the values their messages are rendered from.\<close>

datatype log_entry =
    ApplyingRule string nat nat
  | RuleSummary string nat nat
  | QueryRunMessage nat nat metadata
  | Running string
  | SuccessMessage string query_job nat nat metadata
  | FailureMessage string metadata query_dict error
  | TableNamerWarning string

text \<open>The arguments of a call of a rule: positional ones and keyword ones.\<close>

type_synonym kwargs = "(string \<times> pyval) list"

record call_args =
  positional :: "string list"
  keyword_args :: kwargs

text \<open>
  The state the engine runs in: the log, the submissions the warehouse has received,
  and the attributes rule objects hold between the calls of their methods; and the
  engine's own record of its calls into rule code, in order: the instantiations of rule
  classes (class name and arguments) and the query lists it has got from query
  producers.
\<close>

record world =
  logged :: "log_entry list"
  submitted :: "submission list"
  attributes :: "string \<rightharpoonup> pyval"
  instantiated :: "(string \<times> call_args) list"
  produced :: "query_dict list list"

text \<open>
  A call into rule code (\<^verbatim>\<open>setup_function(client)\<close>, \<^verbatim>\<open>query_function()\<close>) may read
  and change the state in any way and may raise; the record of the engine's calls is
  not in its reach.
\<close>

definition rule_call :: "(world \<Rightarrow> 'a \<times> world) \<Rightarrow> world \<Rightarrow> 'a \<times> world" where
  "rule_call f w =
     (case f w of
        (r, w') \<Rightarrow> (r, w'\<lparr>instantiated := instantiated w, produced := produced w\<rparr>))"

subsection \<open>Rules\<close>

text \<open>
  A parameter of a signature, with its default (\<open>None\<close> for
  \<^verbatim>\<open>inspect.Parameter.empty\<close>).
\<close>

record param =
  param_default :: "pyval option"

text \<open>
  A query producer (\<^verbatim>\<open>query_function\<close>) and a setup function: calls into rule code.
\<close>

type_synonym producer = "world \<Rightarrow> (error + query_dict list) \<times> world"

type_synonym setup_call = "client \<Rightarrow> world \<Rightarrow> (error + unit) \<times> world"

text \<open>
  An instance of a cleaning rule class: its bound methods \<^verbatim>\<open>get_query_specs\<close> and
  \<^verbatim>\<open>setup_rule\<close>, which run in the state they are called in (the attributes
  \<^verbatim>\<open>setup_rule\<close> has set and what the warehouse holds are there for
  \<^verbatim>\<open>get_query_specs\<close> to read), and what \<^verbatim>\<open>inspect\<close> finds for \<^verbatim>\<open>get_query_specs\<close>:
  \<^verbatim>\<open>getmodule\<close> gives a module or \<^verbatim>\<open>None\<close>, \<^verbatim>\<open>getsourcelines\<close> gives the line or
  raises.
\<close>

record rule_instance =
  get_query_specs :: producer
  setup_rule :: setup_call
  specs_name :: string
  specs_module :: "string option"
  specs_sourcelines :: "error + nat"

text \<open>
  What can stand first in a rule tuple: a subclass of \<^verbatim>\<open>BaseCleaningRule\<close>, called to
  make an instance, or any other callable (an old style clean function), called to get
  the query list. The constructor is handed the ids, the table namer and the keyword
  arguments and no client: the instance it makes is a function of these.
\<close>

datatype callable =
    CleaningRuleClass "call_args \<Rightarrow> error + rule_instance"
  | CleanFunction "call_args \<Rightarrow> producer"

record clazz =
  name :: string
  params :: "(string \<times> param) list"
  body :: callable
  clazz_module :: "string option"
  clazz_sourcelines :: "error + nat"

text \<open>Modelled from the spec: \<^verbatim>\<open>ce_consts.CLEAN_ENGINE_REQUIRED_PARAMS\<close>, the names the
  engine supplies itself (project id, dataset id, sandbox dataset id, table namer), is
  not among the sources; the names are those of the constructor of \<^verbatim>\<open>QRIDtoRID\<close>.\<close>

definition CLEAN_ENGINE_REQUIRED_PARAMS :: "string list" where
  "CLEAN_ENGINE_REQUIRED_PARAMS =
     [''project_id'', ''dataset_id'', ''sandbox_dataset_id'', ''table_namer'']"

text \<open>\<^verbatim>\<open>get_custom_kwargs(clazz, **kwargs)\<close>.\<close>

definition get_custom_kwargs :: "clazz \<Rightarrow> kwargs \<Rightarrow> error + kwargs" where
  "get_custom_kwargs clazz kwargs =
     (let rule_params = filter (\<lambda>(k, v). k \<notin> set CLEAN_ENGINE_REQUIRED_PARAMS) (params clazz);
          kwargs = filter (\<lambda>(k, v). k \<in> set (map fst rule_params)) kwargs;
          missing = map fst (filter (\<lambda>(k, v). k \<notin> set (map fst kwargs) \<and> param_default v = None)
                               rule_params)
      in if missing \<noteq> [] then Inl (ValueError missing (name clazz)) else Inr kwargs)"

text \<open>
  \<^verbatim>\<open>rule_info\<close>, and the triple \<^verbatim>\<open>infer_rule\<close> returns.
\<close>

record rule_info =
  info_query_function :: producer
  info_setup_function :: setup_call
  info_metadata :: metadata

type_synonym inferred = "producer \<times> setup_call \<times> rule_info"

text \<open>
  The end of \<^verbatim>\<open>infer_rule\<close>, common to both branches: the module's name
  (\<^verbatim>\<open>inspect.getmodule(...).__name__\<close> raises \<open>AttributeError\<close> on \<^verbatim>\<open>None\<close>), then the
  line (\<^verbatim>\<open>inspect.getsourcelines(...)[1]\<close> may raise), then \<^verbatim>\<open>rule_info\<close>.
\<close>

definition make_rule_info ::
  "producer \<Rightarrow> setup_call \<Rightarrow> string \<Rightarrow> string option \<Rightarrow> error + nat \<Rightarrow> error + inferred" where
  "make_rule_info query_function setup_function fname getmodule getsourcelines =
     (case getmodule of
        None \<Rightarrow> Inl (AttributeError ''__name__'')
      | Some mname \<Rightarrow>
          (case getsourcelines of
             Inl e \<Rightarrow> Inl e
           | Inr line \<Rightarrow>
               Inr (query_function, setup_function,
                    \<lparr>info_query_function = query_function,
                     info_setup_function = setup_function,
                     info_metadata =
                       \<lparr>function_name = fname, rule_module = mname, line_no = line\<rparr>\<rparr>)))"

text \<open>
  \<^verbatim>\<open>infer_rule\<close>. A \<open>TypeError\<close> of the first instantiation, whatever its cause, is
  answered by the warning and a second instantiation without the table namer; any other
  exception of the first, and every exception of the second, is raised. The query
  function of an old style clean function is the call of that function with the ids and
  the keyword arguments, made when the query function is called.
\<close>

definition infer_rule ::
  "clazz \<Rightarrow> string \<Rightarrow> string \<Rightarrow> string \<Rightarrow> string \<Rightarrow> kwargs \<Rightarrow> world \<Rightarrow>
   (error + inferred) \<times> world" where
  "infer_rule clazz project_id dataset_id sandbox_dataset_id table_namer kwargs w =
     (case get_custom_kwargs clazz kwargs of
        Inl e \<Rightarrow> (Inl e, w)
      | Inr kwargs \<Rightarrow>
          (case body clazz of
             CleaningRuleClass init \<Rightarrow>
               (let finish = (\<lambda>inst. make_rule_info (get_query_specs inst) (setup_rule inst)
                                (specs_name inst) (specs_module inst) (specs_sourcelines inst));
                    with_namer = \<lparr>positional =
                                    [project_id, dataset_id, sandbox_dataset_id, table_namer],
                                  keyword_args = kwargs\<rparr>;
                    w1 = w\<lparr>instantiated := instantiated w @ [(name clazz, with_namer)]\<rparr>
                in case init with_namer of
                     Inr inst \<Rightarrow> (finish inst, w1)
                   | Inl (TypeError m) \<Rightarrow>
                       (let w2 = w1\<lparr>logged := logged w1 @ [TableNamerWarning (name clazz)]\<rparr>;
                            without_namer = \<lparr>positional =
                                               [project_id, dataset_id, sandbox_dataset_id],
                                             keyword_args = kwargs\<rparr>;
                            w3 = w2\<lparr>instantiated :=
                                     instantiated w2 @ [(name clazz, without_namer)]\<rparr>
                        in case init without_namer of
                             Inl e \<Rightarrow> (Inl e, w3)
                           | Inr inst \<Rightarrow> (finish inst, w3))
                   | Inl e \<Rightarrow> (Inl e, w1))
           | CleanFunction f \<Rightarrow>
               (make_rule_info
                  (f \<lparr>positional = [project_id, dataset_id, sandbox_dataset_id],
                      keyword_args = kwargs\<rparr>)
                  (\<lambda>client w'. (Inr (), w'))
                  (name clazz) (clazz_module clazz) (clazz_sourcelines clazz), w)))"

subsection \<open>Running the queries of one rule\<close>

text \<open>
  Modelled from the spec: the key constants of \<^verbatim>\<open>rule_info\<close> and the message templates
  of \<^verbatim>\<open>ce_consts\<close> are not among the sources. The keys are the five names the docstring
  of \<^verbatim>\<open>infer_rule\<close> lists. The templates are templates of \<^verbatim>\<open>JINJA_ENV\<close>, like those of
  the sources, and \<^verbatim>\<open>render(*args, **kwargs)\<close> of such a template builds
  \<^verbatim>\<open>dict(*args, **kwargs)\<close> before anything else. So a call of \<open>render\<close> with the given
  number of positional arguments, the given keyword names and \<^verbatim>\<open>**query_dict\<close> raises
  \<open>TypeError\<close> when a key of the dictionary is one of the keyword names (the call itself
  fails) and when there are two positional arguments or more (\<^verbatim>\<open>dict\<close> takes one at
  most); the engine never passes exactly one. Otherwise it gives a message, whose text
  is not modelled.
\<close>

definition RULE_INFO_KEYS :: "string list" where
  "RULE_INFO_KEYS =
     [''query_function'', ''setup_function'', ''function_name'', ''module_name'', ''line_no'']"

definition render :: "nat \<Rightarrow> string list \<Rightarrow> query_dict \<Rightarrow> error + unit" where
  "render positional_count names query_dict =
     (if \<exists>k \<in> set names. query_dict (OtherKey k) \<noteq> None
      then Inl (TypeError ''render() got multiple values for keyword argument'')
      else if 1 < positional_count
      then Inl (TypeError ''dict expected at most 1 argument'')
      else Inr ())"

text \<open>
  The exception of
  \<^verbatim>\<open>raise RuntimeError(FAILURE_MESSAGE_TEMPLATE.render(client.project, query_job, **rule_info, **query_dict))\<close>:
  the message is rendered first, with two positional arguments, and the exception of the
  rendering is the one that is raised.
\<close>

definition job_failure :: "client \<Rightarrow> query_job \<Rightarrow> rule_info \<Rightarrow> query_dict \<Rightarrow> error" where
  "job_failure client query_job rule_info query_dict =
     (case render 2 RULE_INFO_KEYS query_dict of
        Inl e \<Rightarrow> e
      | Inr message \<Rightarrow>
          RuntimeError (project client) (job_id query_job) (errors query_job)
            (info_metadata rule_info) (dict_get query_dict QUERY))"

text \<open>
  The handler of \<^verbatim>\<open>run_queries\<close>: \<^verbatim>\<open>except (GoogleCloudError, TOError)\<close> renders the
  failure message with keyword arguments only (\<^verbatim>\<open>project_id\<close>, \<^verbatim>\<open>**rule_info\<close>,
  \<^verbatim>\<open>**query_dict\<close>, \<^verbatim>\<open>exception\<close>), logs it and raises the exception again; an exception
  of that rendering takes the place of the one caught. Any other exception of the
  \<^verbatim>\<open>try\<close> block passes through the handler untouched. In every case the jobs collected
  so far are local to the call and are not handed to the caller.
\<close>

fun caught :: "error \<Rightarrow> bool" where
  "caught (GoogleCloudError m) = True"
| "caught TOError = True"
| "caught e = False"

definition except ::
  "client \<Rightarrow> rule_info \<Rightarrow> query_dict \<Rightarrow> error \<Rightarrow> world \<Rightarrow> (error + query_job list) \<times> world" where
  "except client rule_info query_dict exp w =
     (if caught exp
      then (case render 0 (''project_id'' # RULE_INFO_KEYS @ [''exception'']) query_dict of
              Inl e \<Rightarrow> (Inl e, w)
            | Inr message \<Rightarrow>
                (Inl exp, w\<lparr>logged := logged w @
                   [FailureMessage (project client) (info_metadata rule_info) query_dict exp]\<rparr>))
      else (Inl exp, w))"

text \<open>The arguments of \<^verbatim>\<open>client.query\<close> for one query dictionary:
  \<^verbatim>\<open>module_short_name\<close> is the last dotted part of the module name, cut to ten characters.\<close>

definition query_args :: "rule_info \<Rightarrow> query_dict \<Rightarrow> job_config \<Rightarrow> submission" where
  "query_args rule_info query_dict job_config =
     (let module_short_name =
            take 10 (last (split_dots [] (rule_module (info_metadata rule_info))))
      in \<lparr>query = dict_get query_dict QUERY, sub_job_config = job_config,
          job_id_prefix = module_short_name @ ''_''\<rparr>)"

text \<open>
  The loop of \<^verbatim>\<open>run_queries\<close> over \<^verbatim>\<open>enumerate(query_list)\<close>, with the jobs appended so
  far. A job is appended as soon as \<^verbatim>\<open>client.query\<close> has returned it; the list is
  returned only when the loop ends.
\<close>

fun run_queries_loop ::
  "(string \<Rightarrow> error + table_ref) \<Rightarrow> client \<Rightarrow> rule_info \<Rightarrow> nat \<Rightarrow> nat \<Rightarrow> query_dict list \<Rightarrow>
   query_job list \<Rightarrow> world \<Rightarrow> (error + query_job list) \<times> world" where
  "run_queries_loop from_string client rule_info query_count query_no [] jobs w = (Inr jobs, w)"
| "run_queries_loop from_string client rule_info query_count query_no (query_dict # rest) jobs w =
     (let w1 = w\<lparr>logged := logged w @
                  [QueryRunMessage query_no query_count (info_metadata rule_info)]\<rparr>
      in case generate_job_config from_string (project client) query_dict of
           Inl e \<Rightarrow> except client rule_info query_dict e w1
         | Inr job_config \<Rightarrow>
             (let args = query_args rule_info query_dict job_config
              in case run_job client (submitted w1) args of
                   SubmitRaises e \<Rightarrow> except client rule_info query_dict e w1
                 | Submitted jid res \<Rightarrow>
                     (let w2 = w1\<lparr>submitted := submitted w1 @ [args],
                                  logged := logged w1 @ [Running jid]\<rparr>
                      in case res of
                           ResultRaises e \<Rightarrow> except client rule_info query_dict e w2
                         | Completed errs \<Rightarrow>
                             (let query_job = \<lparr>job_id = jid, submitted_as = args, errors = errs\<rparr>
                              in if errs \<noteq> []
                                 then except client rule_info query_dict
                                        (job_failure client query_job rule_info query_dict) w2
                                 else run_queries_loop from_string client rule_info query_count
                                        (Suc query_no) rest (jobs @ [query_job])
                                        (w2\<lparr>logged := logged w2 @
                                           [SuccessMessage (project client) query_job query_no
                                              query_count (info_metadata rule_info)]\<rparr>)))))"

definition run_queries ::
  "(string \<Rightarrow> error + table_ref) \<Rightarrow> client \<Rightarrow> query_dict list \<Rightarrow> rule_info \<Rightarrow> world \<Rightarrow>
   (error + query_job list) \<times> world" where
  "run_queries from_string client query_list rule_info w =
     run_queries_loop from_string client rule_info (length query_list) 0 query_list [] w"

subsection \<open>The pipeline driver and the preview\<close>

text \<open>
  What \<^verbatim>\<open>clean_dataset\<close> takes from outside the engine: the library's \<^verbatim>\<open>from_string\<close>,
  \<^verbatim>\<open>get_impersonation_credentials\<close>, and the warehouse behind \<^verbatim>\<open>BigQueryClient\<close>.
\<close>

record externals =
  table_from_string :: "string \<Rightarrow> error + table_ref"
  get_impersonation_credentials :: "string \<Rightarrow> error + string"
  warehouse :: "submission list \<Rightarrow> submission \<Rightarrow> submit_outcome"

text \<open>
  The loop of \<^verbatim>\<open>clean_dataset\<close> over \<^verbatim>\<open>enumerate(rules)\<close>. A rule is a tuple whose first
  component is the rule class or function; \<^verbatim>\<open>rule[0]\<close> raises on the empty tuple. The
  setup function is called with the client, then the query function is called, in the
  state the setup has left; the list it returns is noted in \<open>produced\<close>.
\<close>

fun clean_dataset_loop ::
  "externals \<Rightarrow> client \<Rightarrow> string \<Rightarrow> string \<Rightarrow> string \<Rightarrow> string \<Rightarrow> kwargs \<Rightarrow> nat \<Rightarrow> nat \<Rightarrow>
   clazz list list \<Rightarrow> query_job list \<Rightarrow> world \<Rightarrow> (error + query_job list) \<times> world" where
  "clean_dataset_loop ext client project_id dataset_id sandbox_dataset_id table_namer kwargs
     rule_count rule_index [] all_jobs w = (Inr all_jobs, w)"
| "clean_dataset_loop ext client project_id dataset_id sandbox_dataset_id table_namer kwargs
     rule_count rule_index (rule # rest) all_jobs w =
     (case rule of
        [] \<Rightarrow> (Inl IndexError, w)
      | clazz # _ \<Rightarrow>
          (case infer_rule clazz project_id dataset_id sandbox_dataset_id table_namer kwargs w of
             (Inl e, w1) \<Rightarrow> (Inl e, w1)
           | (Inr (query_function, setup_function, rule_info), w1) \<Rightarrow>
               (let w2 = w1\<lparr>logged := logged w1 @
                            [ApplyingRule (rule_module (info_metadata rule_info))
                               (rule_index + 1) rule_count]\<rparr>
                in case rule_call (setup_function client) w2 of
                     (Inl e, w3) \<Rightarrow> (Inl e, w3)
                   | (Inr u, w3) \<Rightarrow>
                       (case rule_call query_function w3 of
                          (Inl e, w4) \<Rightarrow> (Inl e, w4)
                        | (Inr query_list, w4) \<Rightarrow>
                            (let w5 = w4\<lparr>produced := produced w4 @ [query_list]\<rparr>
                             in case run_queries (table_from_string ext) client query_list
                                       rule_info w5 of
                                  (Inl e, w6) \<Rightarrow> (Inl e, w6)
                                | (Inr jobs, w6) \<Rightarrow>
                                    clean_dataset_loop ext client project_id dataset_id
                                      sandbox_dataset_id table_namer kwargs rule_count
                                      (Suc rule_index) rest (all_jobs @ jobs)
                                      (w6\<lparr>logged := logged w6 @
                                         [RuleSummary (rule_module (info_metadata rule_info))
                                            (length jobs) (length query_list)]\<rparr>))))))"

text \<open>
  \<^verbatim>\<open>clean_dataset\<close>. \<^verbatim>\<open>run_as\<close> is an email address or \<^verbatim>\<open>None\<close>; \<^verbatim>\<open>if run_as\<close> holds
  for a non-empty string. \<^verbatim>\<open>kwargs\<close> is what is left of the keyword arguments once
  \<^verbatim>\<open>table_namer\<close> and \<^verbatim>\<open>run_as\<close> are bound.
\<close>

definition clean_dataset ::
  "externals \<Rightarrow> string \<Rightarrow> string \<Rightarrow> string \<Rightarrow> clazz list list \<Rightarrow> string \<Rightarrow> string option \<Rightarrow>
   kwargs \<Rightarrow> world \<Rightarrow> (error + query_job list) \<times> world" where
  "clean_dataset ext project_id dataset_id sandbox_dataset_id rules table_namer run_as kwargs w =
     (case (case run_as of
              None \<Rightarrow> Inr None
            | Some address \<Rightarrow>
                if address = [] then Inr None
                else (case get_impersonation_credentials ext address of
                        Inl e \<Rightarrow> Inl e
                      | Inr creds \<Rightarrow> Inr (Some creds))) of
        Inl e \<Rightarrow> (Inl e, w)
      | Inr impersonation_creds \<Rightarrow>
          (let client = \<lparr>project = project_id, credentials = impersonation_creds,
                         run_job = warehouse ext\<rparr>
           in clean_dataset_loop ext client project_id dataset_id sandbox_dataset_id
                table_namer kwargs (length rules) 0 rules [] w))"

text \<open>The loop of \<^verbatim>\<open>get_query_list\<close>, and \<^verbatim>\<open>get_query_list\<close>: the query function is
  called right after \<^verbatim>\<open>infer_rule\<close>, the setup function is not called, and nothing is
  submitted.\<close>

fun get_query_list_loop ::
  "string \<Rightarrow> string \<Rightarrow> string \<Rightarrow> string \<Rightarrow> kwargs \<Rightarrow> clazz list list \<Rightarrow> query_dict list \<Rightarrow>
   world \<Rightarrow> (error + query_dict list) \<times> world" where
  "get_query_list_loop project_id dataset_id sandbox_dataset_id table_namer kwargs []
     all_queries_list w = (Inr all_queries_list, w)"
| "get_query_list_loop project_id dataset_id sandbox_dataset_id table_namer kwargs (rule # rest)
     all_queries_list w =
     (case rule of
        [] \<Rightarrow> (Inl IndexError, w)
      | clazz # _ \<Rightarrow>
          (case infer_rule clazz project_id dataset_id sandbox_dataset_id table_namer kwargs w of
             (Inl e, w1) \<Rightarrow> (Inl e, w1)
           | (Inr (query_function, setup_function, rule_info), w1) \<Rightarrow>
               (case rule_call query_function w1 of
                  (Inl e, w2) \<Rightarrow> (Inl e, w2)
                | (Inr query_list, w2) \<Rightarrow>
                    get_query_list_loop project_id dataset_id sandbox_dataset_id table_namer
                      kwargs rest (all_queries_list @ query_list)
                      (w2\<lparr>produced := produced w2 @ [query_list]\<rparr>))))"

definition get_query_list ::
  "string \<Rightarrow> string \<Rightarrow> string \<Rightarrow> clazz list list \<Rightarrow> string \<Rightarrow> kwargs \<Rightarrow> world \<Rightarrow>
   (error + query_dict list) \<times> world" where
  "get_query_list project_id dataset_id sandbox_dataset_id rules table_namer kwargs w =
     get_query_list_loop project_id dataset_id sandbox_dataset_id table_namer kwargs rules [] w"

subsection \<open>Reading the effects\<close>


fun running_ids :: "log_entry list \<Rightarrow> string list" where
  "running_ids [] = []"
| "running_ids (Running jid # es) = jid # running_ids es"
| "running_ids (e # es) = running_ids es"

subsection \<open>Rules of the sources and a sample environment\<close>

text \<open>
  \<^verbatim>\<open>DomainAlignment\<close> of the integration tests: its constructor takes the three ids and
  nothing else, so a call with the table namer raises \<open>TypeError\<close>; its
  \<^verbatim>\<open>setup_rule\<close> does nothing. Its query list,
  \<^verbatim>\<open>domain_alignment(...)\<close>, is not among the sources; two queries stand for it, one with
  a destination and one without.
\<close>

definition domain_alignment_queries :: "query_dict list" where
  "domain_alignment_queries =
     [[QUERY \<mapsto> PStr ''SELECT 1'', DESTINATION_TABLE \<mapsto> PStr ''t'',
       DESTINATION_DATASET \<mapsto> PStr ''d''],
      [QUERY \<mapsto> PStr ''SELECT 2'']]"

definition DomainAlignment :: clazz where
  "DomainAlignment =
     \<lparr>name = ''DomainAlignment'',
      params = [(''project_id'', \<lparr>param_default = None\<rparr>),
                (''dataset_id'', \<lparr>param_default = None\<rparr>),
                (''sandbox_dataset_id'', \<lparr>param_default = None\<rparr>)],
      body = CleaningRuleClass (\<lambda>args.
               if length (positional args) = 3 \<and> keyword_args args = []
               then Inr \<lparr>get_query_specs = (\<lambda>w. (Inr domain_alignment_queries, w)),
                        setup_rule = (\<lambda>client w. (Inr (), w)),
                        specs_name = ''get_query_specs'',
                        specs_module = Some
                          ''tests.integration_tests.data_steward.cdr_cleaner.cleaning_rules.domain_alignment_test'',
                        specs_sourcelines = Inr 39\<rparr>
               else Inl (TypeError ''__init__() takes 4 positional arguments'')),
      clazz_module = Some
        ''tests.integration_tests.data_steward.cdr_cleaner.cleaning_rules.domain_alignment_test'',
      clazz_sourcelines = Inr 24\<rparr>"

text \<open>
  \<^verbatim>\<open>QRIDtoRID\<close>: the table namer and the map dataset have the default \<^verbatim>\<open>None\<close>; the
  constructor raises \<open>TypeError\<close> when the map dataset is empty; there is one query, whose
  text is shortened here, and \<^verbatim>\<open>setup_rule\<close> does nothing.
\<close>

definition QRIDtoRID :: clazz where
  "QRIDtoRID =
     \<lparr>name = ''QRIDtoRID'',
      params = [(''project_id'', \<lparr>param_default = None\<rparr>),
                (''dataset_id'', \<lparr>param_default = None\<rparr>),
                (''sandbox_dataset_id'', \<lparr>param_default = None\<rparr>),
                (''table_namer'', \<lparr>param_default = Some PNone\<rparr>),
                (''deid_questionnaire_response_map_dataset'', \<lparr>param_default = Some PNone\<rparr>)],
      body = CleaningRuleClass (\<lambda>args.
               if length (positional args) \<noteq> 3 \<and> length (positional args) \<noteq> 4
               then Inl (TypeError ''__init__() positional arguments'')
               else if \<exists>k \<in> set (map fst (keyword_args args)).
                         k \<noteq> ''deid_questionnaire_response_map_dataset''
               then Inl (TypeError ''__init__() got an unexpected keyword argument'')
               else (let map_dataset =
                           (case map_of (keyword_args args)
                                   ''deid_questionnaire_response_map_dataset'' of
                              None \<Rightarrow> PNone
                            | Some v \<Rightarrow> v)
                     in if \<not> truthy map_dataset
                        then Inl (TypeError
                               ''deid_questionnaire_response_map_dataset cannot be empty'')
                        else
                          Inr \<lparr>get_query_specs = (\<lambda>w. (Inr
                                 [[QUERY \<mapsto> PStr (''UPDATE '' @ positional args ! 0 @ ''.'' @
                                     positional args ! 1 @ ''.observation FROM '' @
                                     py_str map_dataset)]], w)),
                               setup_rule = (\<lambda>client w. (Inr (), w)),
                               specs_name = ''get_query_specs'',
                               specs_module = Some
                                 ''cdr_cleaner.cleaning_rules.deid.questionnaire_response_id_map'',
                               specs_sourcelines = Inr 82\<rparr>)),
      clazz_module = Some ''cdr_cleaner.cleaning_rules.deid.questionnaire_response_id_map'',
      clazz_sourcelines = Inr 41\<rparr>"

text \<open>
  An old style clean function that declares \<^verbatim>\<open>dataset_id\<close> and \<^verbatim>\<open>cutoff_date\<close>, both
  without default, and one whose module \<^verbatim>\<open>inspect\<close> cannot find.
\<close>

definition cutoff_rule :: clazz where
  "cutoff_rule =
     \<lparr>name = ''cutoff_rule'',
      params = [(''dataset_id'', \<lparr>param_default = None\<rparr>),
                (''cutoff_date'', \<lparr>param_default = None\<rparr>)],
      body = CleanFunction (\<lambda>args w. (Inr [], w)),
      clazz_module = Some ''cdr_cleaner.cleaning_rules.cutoff_rule'',
      clazz_sourcelines = Inr 10\<rparr>"

definition unlocated_function :: clazz where
  "unlocated_function =
     \<lparr>name = ''unlocated_function'',
      params = [(''project_id'', \<lparr>param_default = None\<rparr>),
                (''dataset_id'', \<lparr>param_default = None\<rparr>),
                (''sandbox_dataset_id'', \<lparr>param_default = None\<rparr>)],
      body = CleanFunction (\<lambda>args w. (Inr [[QUERY \<mapsto> PStr ''SELECT 1'']], w)),
      clazz_module = None,
      clazz_sourcelines = Inl (OSError ''could not find source'')\<rparr>"

text \<open>
  A rule class of the kind the engine admits, with the three ids as its parameters:
  \<^verbatim>\<open>setup_rule\<close> notes in an attribute of the instance the table it has found, and
  \<^verbatim>\<open>get_query_specs\<close> has one query for the table that is noted and none before.
\<close>

definition FoundTableRule :: clazz where
  "FoundTableRule =
     \<lparr>name = ''FoundTableRule'',
      params = [(''project_id'', \<lparr>param_default = None\<rparr>),
                (''dataset_id'', \<lparr>param_default = None\<rparr>),
                (''sandbox_dataset_id'', \<lparr>param_default = None\<rparr>),
                (''table_namer'', \<lparr>param_default = Some PNone\<rparr>)],
      body = CleaningRuleClass (\<lambda>args.
               Inr \<lparr>get_query_specs = (\<lambda>w.
                       (case attributes w ''FoundTableRule.table'' of
                          None \<Rightarrow> Inr []
                        | Some table \<Rightarrow> Inr [[QUERY \<mapsto> PStr (''DELETE FROM '' @ py_str table)]],
                        w)),
                    setup_rule = (\<lambda>client w.
                       (Inr (), w\<lparr>attributes :=
                                   (attributes w)(''FoundTableRule.table'' \<mapsto> PStr ''person'')\<rparr>)),
                    specs_name = ''get_query_specs'',
                    specs_module = Some ''cdr_cleaner.cleaning_rules.found_table_rule'',
                    specs_sourcelines = Inr 30\<rparr>),
      clazz_module = Some ''cdr_cleaner.cleaning_rules.found_table_rule'',
      clazz_sourcelines = Inr 12\<rparr>"

text \<open>
  The world before anything has happened, and a warehouse that accepts every
  submission, names the job after the prefix and the number of earlier submissions, and
  reports an error for the query \<^verbatim>\<open>SELECT bad\<close> only.
\<close>

definition world0 :: world where
  "world0 =
     \<lparr>logged = [], submitted = [], attributes = Map.empty, instantiated = [], produced = []\<rparr>"

definition sample_warehouse :: "submission list \<Rightarrow> submission \<Rightarrow> submit_outcome" where
  "sample_warehouse history s =
     Submitted (job_id_prefix s @ replicate (length history) (CHR ''i''))
       (Completed (if query s = PStr ''SELECT bad'' then [''invalid query''] else []))"

definition sample_externals :: externals where
  "sample_externals =
     \<lparr>table_from_string = from_string_3,
      get_impersonation_credentials = (\<lambda>address. Inr (''token for '' @ address)),
      warehouse = sample_warehouse\<rparr>"

text \<open>
  A client of that warehouse, the \<^verbatim>\<open>rule_info\<close> of a rule in the module
  \<^verbatim>\<open>cdr_cleaner.cleaning_rules.domain_alignment\<close>, and three queries of which the second
  is the one the warehouse reports an error for.
\<close>

definition sample_client :: client where
  "sample_client = \<lparr>project = ''p'', credentials = None, run_job = sample_warehouse\<rparr>"



text \<open>
  The keyword arguments of a run of \<^verbatim>\<open>DomainAlignment\<close> and \<^verbatim>\<open>QRIDtoRID\<close>, and the
  three jobs this run returns from the sample warehouse.
\<close>

definition sample_kwargs :: kwargs where
  "sample_kwargs = [(''deid_questionnaire_response_map_dataset'', PStr ''m'')]"

definition sample_jobs :: "query_job list" where
  "sample_jobs =
     [\<lparr>job_id = ''domain_ali_'',
       submitted_as = \<lparr>query = PStr ''SELECT 1'',
          sub_job_config = \<lparr>destination = Some \<lparr>ref_project = ''p'', ref_dataset_id = ''d'',
                                                ref_table_id = ''t''\<rparr>,
                            use_legacy_sql = PBool False, allow_large_results = PBool False,
                            write_disposition = WRITE_EMPTY\<rparr>,
          job_id_prefix = ''domain_ali_''\<rparr>,
       errors = []\<rparr>,
      \<lparr>job_id = ''domain_ali_i'',
       submitted_as = \<lparr>query = PStr ''SELECT 2'', sub_job_config = QueryJobConfig,
          job_id_prefix = ''domain_ali_''\<rparr>,
       errors = []\<rparr>,
      \<lparr>job_id = ''questionna_ii'',
       submitted_as = \<lparr>query = PStr ''UPDATE p.d.observation FROM m'',
          sub_job_config = QueryJobConfig, job_id_prefix = ''questionna_''\<rparr>,
       errors = []\<rparr>]"

section \<open>Properties\<close>

subsection \<open>Job configuration\<close>

text \<open>
  C10. For every query specification with no destination table (the key is missing or
  holds \<^verbatim>\<open>None\<close>), \<open>generate_job_config\<close> returns the default configuration unchanged:
  no destination, and the legacy-SQL and disposition values of the specification, whatever
  they are, leave the result the same, with both properties unset.
\<close>

theorem generate_job_config_no_destination:
  assumes "dict_get query_dict DESTINATION_TABLE = PNone"
  shows "generate_job_config from_str project_id query_dict = Inr QueryJobConfig
       \<and> generate_job_config from_str project_id
            (query_dict(LEGACY_SQL \<mapsto> legacy, DISPOSITION \<mapsto> disposition)) = Inr QueryJobConfig
       \<and> destination QueryJobConfig = None
       \<and> use_legacy_sql QueryJobConfig = PNone
       \<and> allow_large_results QueryJobConfig = PNone
       \<and> write_disposition QueryJobConfig = PNone"
  using assms by (simp add: generate_job_config_def dict_get_def QueryJobConfig_def)

theorem generate_job_config_no_destination_witness:
  "dict_get [QUERY \<mapsto> PStr ''SELECT 1''] DESTINATION_TABLE = PNone
   \<and> generate_job_config from_string_3 ''p''
        [QUERY \<mapsto> PStr ''SELECT 1'', LEGACY_SQL \<mapsto> PBool True,
         DISPOSITION \<mapsto> PStr ''WRITE_TRUNCATE'']
      = Inr QueryJobConfig"
  using generate_job_config_no_destination
          [of "[QUERY \<mapsto> PStr ''SELECT 1'']" from_string_3 "''p''" "PBool True"
              "PStr ''WRITE_TRUNCATE''"]
  by (simp add: dict_get_def)

text \<open>
  The specification \<^verbatim>\<open>{useLegacySql: true}\<close> has no destination table: its configuration is
  the default one, whose \<open>allow_large_results\<close> is unset and not \<^verbatim>\<open>True\<close>.
\<close>

theorem allow_large_results_counterexample:
  "generate_job_config from_string_3 ''p''
     [QUERY \<mapsto> PStr ''SELECT 1'', LEGACY_SQL \<mapsto> PBool True] = Inr QueryJobConfig
   \<and> allow_large_results QueryJobConfig \<noteq> PBool True"
  by (simp add: generate_job_config_def dict_get_def QueryJobConfig_def)

text \<open>
  C4, amended. For every query specification with a destination table, a destination
  dataset entry and a full table id the library accepts, a configuration is built, and
  its \<open>allow_large_results\<close> equals its \<open>use_legacy_sql\<close>, which is the legacy-SQL value of
  the specification (\<^verbatim>\<open>False\<close> when the specification has none); so such a specification
  with legacy SQL \<^verbatim>\<open>True\<close> gets \<open>allow_large_results\<close> \<^verbatim>\<open>True\<close>.
\<close>

theorem allow_large_results_with_destination:
  assumes "dict_get query_dict DESTINATION_TABLE \<noteq> PNone"
    and "query_dict DESTINATION_DATASET = Some dataset"
    and "from_str (project_id @ ''.'' @ py_str dataset @ ''.'' @
                     py_str (dict_get query_dict DESTINATION_TABLE)) = Inr table"
  shows "\<exists>job_config. generate_job_config from_str project_id query_dict = Inr job_config
           \<and> use_legacy_sql job_config = dict_get_default query_dict LEGACY_SQL (PBool False)
           \<and> allow_large_results job_config = use_legacy_sql job_config"
  using assms by (simp add: generate_job_config_def QueryJobConfig_def)

theorem allow_large_results_with_destination_witness:
  "\<exists>job_config. generate_job_config from_string_3 ''p''
        [DESTINATION_TABLE \<mapsto> PStr ''t'', DESTINATION_DATASET \<mapsto> PStr ''d'',
         LEGACY_SQL \<mapsto> PBool True] = Inr job_config
      \<and> use_legacy_sql job_config = PBool True
      \<and> allow_large_results job_config = use_legacy_sql job_config"
  using allow_large_results_with_destination
          [of "[DESTINATION_TABLE \<mapsto> PStr ''t'', DESTINATION_DATASET \<mapsto> PStr ''d'',
                LEGACY_SQL \<mapsto> PBool True]"
              "PStr ''d''" from_string_3 "''p''"]
  by (simp add: dict_get_def dict_get_default_def from_string_3_def)

text \<open>
  The specification of the scenario, with the destination table \<^verbatim>\<open>t\<close> and the destination
  dataset \<^verbatim>\<open>None\<close>, is neither rejected nor normalized: the destination is parsed from
  \<^verbatim>\<open>p.None.t\<close>.
\<close>

theorem destination_dataset_none_counterexample:
  "generate_job_config from_string_3 ''p''
     [QUERY \<mapsto> PStr ''SELECT 1'', DESTINATION_TABLE \<mapsto> PStr ''t'',
      DESTINATION_DATASET \<mapsto> PNone]
   = Inr \<lparr>destination = Some \<lparr>ref_project = ''p'', ref_dataset_id = ''None'',
                                ref_table_id = ''t''\<rparr>,
          use_legacy_sql = PBool False, allow_large_results = PBool False,
          write_disposition = WRITE_EMPTY\<rparr>"
  by (simp add: generate_job_config_def dict_get_def dict_get_default_def QueryJobConfig_def
        from_string_3_def)

text \<open>
  C5, amended. For every query specification that has a destination table and no
  destination dataset entry at all, the construction of the job configuration fails with
  the \<open>KeyError\<close> of the missing entry; no destination reference is built.
\<close>

theorem destination_dataset_missing:
  assumes "dict_get query_dict DESTINATION_TABLE \<noteq> PNone"
    and "query_dict DESTINATION_DATASET = None"
  shows "generate_job_config from_str project_id query_dict = Inl (KeyError DESTINATION_DATASET)"
  using assms by (simp add: generate_job_config_def)

theorem destination_dataset_missing_witness:
  "dict_get [QUERY \<mapsto> PStr ''SELECT 1'', DESTINATION_TABLE \<mapsto> PStr ''t''] DESTINATION_TABLE
     \<noteq> PNone
   \<and> generate_job_config from_string_3 ''p''
        [QUERY \<mapsto> PStr ''SELECT 1'', DESTINATION_TABLE \<mapsto> PStr ''t'']
       = Inl (KeyError DESTINATION_DATASET)"
  using destination_dataset_missing
          [of "[QUERY \<mapsto> PStr ''SELECT 1'', DESTINATION_TABLE \<mapsto> PStr ''t'']"
              from_string_3 "''p''"]
  by (simp add: dict_get_def)

subsection \<open>Parameter resolution\<close>

lemma in_set_not_Nil: "x \<in> set xs \<Longrightarrow> xs \<noteq> []"
  by auto

lemma missing_nil_iff:
  "map fst (filter (\<lambda>(k, v). k \<notin> set (map fst (filter (\<lambda>(k, v). k \<in> set (map fst rp)) kwargs))
                             \<and> param_default v = None) rp) = []
   \<longleftrightarrow> (\<forall>(k, p) \<in> set rp. param_default p = None \<longrightarrow> k \<in> fst ` set kwargs)"
  by (auto simp: filter_empty_conv image_iff) (force+)

text \<open>The supplied entries whose name is not a declared parameter outside the engine's
  own names have no influence on what the resolver returns or raises.\<close>

lemma get_custom_kwargs_ignores_others:
  "get_custom_kwargs clazz
     (filter (\<lambda>(k, v). k \<in> fst ` set (params clazz) \<and> k \<notin> set CLEAN_ENGINE_REQUIRED_PARAMS)
        kwargs)
   = get_custom_kwargs clazz kwargs"
proof -
  let ?rp = "filter (\<lambda>(k, v). k \<notin> set CLEAN_ENGINE_REQUIRED_PARAMS) (params clazz)"
  let ?P = "\<lambda>(k, v). k \<in> fst ` set (params clazz) \<and> k \<notin> set CLEAN_ENGINE_REQUIRED_PARAMS"
  let ?Q = "\<lambda>(k, v). k \<in> set (map fst ?rp)"
  have keys: "set (map fst ?rp) =
                {k \<in> fst ` set (params clazz). k \<notin> set CLEAN_ENGINE_REQUIRED_PARAMS}"
    by (force simp: image_iff)
  have "filter ?Q (filter ?P kwargs) = filter ?Q kwargs"
    unfolding keys by (induction kwargs) auto
  then show ?thesis
    unfolding get_custom_kwargs_def Let_def by (simp only:)
qed

text \<open>
  C7. For every rule and every supplied options, provided no required parameter of the
  rule is missing (the case of C3), the resolver returns exactly the supplied entries whose
  name is a declared parameter outside the engine's own names, in the order supplied.
  Every other entry is dropped without a trace: with or without it the resolver returns
  or raises the same. With the two declared parameters of the scenario, the options
  \<^verbatim>\<open>cutoff_date\<close> and \<^verbatim>\<open>extra\<close> resolve to \<^verbatim>\<open>cutoff_date\<close> alone.
\<close>

theorem get_custom_kwargs_filters:
  assumes "\<forall>(k, p) \<in> set (params clazz).
             k \<notin> set CLEAN_ENGINE_REQUIRED_PARAMS \<and> param_default p = None
             \<longrightarrow> k \<in> fst ` set kwargs"
  shows "get_custom_kwargs clazz kwargs =
           Inr (filter (\<lambda>(k, v). k \<in> fst ` set (params clazz)
                                \<and> k \<notin> set CLEAN_ENGINE_REQUIRED_PARAMS) kwargs)
       \<and> get_custom_kwargs clazz
           (filter (\<lambda>(k, v). k \<in> fst ` set (params clazz)
                              \<and> k \<notin> set CLEAN_ENGINE_REQUIRED_PARAMS) kwargs)
         = get_custom_kwargs clazz kwargs"
proof -
  let ?rp = "filter (\<lambda>(k, v). k \<notin> set CLEAN_ENGINE_REQUIRED_PARAMS) (params clazz)"
  have keys: "set (map fst ?rp) =
                {k \<in> fst ` set (params clazz). k \<notin> set CLEAN_ENGINE_REQUIRED_PARAMS}"
    by (force simp: image_iff)
  have "\<forall>(k, p) \<in> set ?rp. param_default p = None \<longrightarrow> k \<in> fst ` set kwargs"
    using assms by auto
  then have none:
    "map fst (filter (\<lambda>(k, v). k \<notin> set (map fst (filter (\<lambda>(k, v). k \<in> set (map fst ?rp)) kwargs))
                               \<and> param_default v = None) ?rp) = []"
    by (simp only: missing_nil_iff)
  have flt: "filter (\<lambda>(k, v). k \<in> set (map fst ?rp)) kwargs
           = filter (\<lambda>(k, v). k \<in> fst ` set (params clazz)
                              \<and> k \<notin> set CLEAN_ENGINE_REQUIRED_PARAMS) kwargs"
    unfolding keys by (rule filter_cong) auto
  have "get_custom_kwargs clazz kwargs =
           Inr (filter (\<lambda>(k, v). k \<in> fst ` set (params clazz)
                                \<and> k \<notin> set CLEAN_ENGINE_REQUIRED_PARAMS) kwargs)"
    unfolding get_custom_kwargs_def Let_def
    by (subst none) (simp only: flt simp_thms if_False)
  then show ?thesis
    using get_custom_kwargs_ignores_others [of clazz kwargs] by (rule conjI)
qed

theorem get_custom_kwargs_filters_witness:
  "get_custom_kwargs cutoff_rule
     [(''cutoff_date'', PStr ''2022-01-01''), (''extra'', PStr ''ignored'')]
   = Inr [(''cutoff_date'', PStr ''2022-01-01'')]
   \<and> get_custom_kwargs cutoff_rule [(''cutoff_date'', PStr ''2022-01-01'')]
     = get_custom_kwargs cutoff_rule
         [(''cutoff_date'', PStr ''2022-01-01''), (''extra'', PStr ''ignored'')]"
  using get_custom_kwargs_filters
          [of cutoff_rule "[(''cutoff_date'', PStr ''2022-01-01''), (''extra'', PStr ''ignored'')]"]
  by (simp add: cutoff_rule_def CLEAN_ENGINE_REQUIRED_PARAMS_def)

text \<open>
  C3. For every rule with a required parameter outside the engine's own names that the
  supplied options lack, the resolver raises the \<open>ValueError\<close> whose names are, as a set,
  exactly the missing required parameters; \<open>infer_rule\<close> raises the same error and leaves
  the world as it was: nothing has been instantiated.
\<close>

theorem missing_parameters_raise:
  assumes "(k, p) \<in> set (params clazz)" and "k \<notin> set CLEAN_ENGINE_REQUIRED_PARAMS"
    and "param_default p = None" and "k \<notin> fst ` set kwargs"
  shows "\<exists>missing.
           get_custom_kwargs clazz kwargs = Inl (ValueError missing (name clazz))
         \<and> set missing = {k. \<exists>p. (k, p) \<in> set (params clazz)
                                  \<and> k \<notin> set CLEAN_ENGINE_REQUIRED_PARAMS
                                  \<and> param_default p = None \<and> k \<notin> fst ` set kwargs}
         \<and> infer_rule clazz project_id dataset_id sandbox_dataset_id table_namer kwargs w
             = (Inl (ValueError missing (name clazz)), w)"
proof -
  let ?rp = "filter (\<lambda>(k, v). k \<notin> set CLEAN_ENGINE_REQUIRED_PARAMS) (params clazz)"
  let ?kw = "filter (\<lambda>(k, v). k \<in> set (map fst ?rp)) kwargs"
  let ?missing = "map fst (filter (\<lambda>(k, v). k \<notin> set (map fst ?kw) \<and> param_default v = None) ?rp)"
  have set_missing:
    "set ?missing = {k. \<exists>p. (k, p) \<in> set (params clazz) \<and> k \<notin> set CLEAN_ENGINE_REQUIRED_PARAMS
                           \<and> param_default p = None \<and> k \<notin> fst ` set kwargs}"
    by (auto simp: image_iff) (force+)
  have "k \<in> set ?missing"
    unfolding set_missing using assms by blast
  then have ne: "?missing \<noteq> []" by (rule in_set_not_Nil)
  have g: "get_custom_kwargs clazz kwargs = Inl (ValueError ?missing (name clazz))"
    unfolding get_custom_kwargs_def Let_def by (simp only: ne simp_thms if_True)
  have "infer_rule clazz project_id dataset_id sandbox_dataset_id table_namer kwargs w
          = (Inl (ValueError ?missing (name clazz)), w)"
    unfolding infer_rule_def by (simp add: g)
  with g set_missing show ?thesis by blast
qed

theorem missing_parameters_raise_witness:
  "get_custom_kwargs cutoff_rule [(''extra'', PStr ''ignored'')]
     = Inl (ValueError [''cutoff_date''] ''cutoff_rule'')
   \<and> infer_rule cutoff_rule ''p'' ''d'' ''s'' '''' [(''extra'', PStr ''ignored'')] world0
     = (Inl (ValueError [''cutoff_date''] ''cutoff_rule''), world0)"
proof -
  have h1: "(''cutoff_date'', \<lparr>param_default = None\<rparr>) \<in> set (params cutoff_rule)"
    by (simp add: cutoff_rule_def)
  have h2: "''cutoff_date'' \<notin> set CLEAN_ENGINE_REQUIRED_PARAMS"
    by (simp add: CLEAN_ENGINE_REQUIRED_PARAMS_def)
  have h3: "param_default \<lparr>param_default = None\<rparr> = None"
    by simp
  have h4: "''cutoff_date'' \<notin> fst ` set [(''extra'', PStr ''ignored'')]"
    by simp
  have g: "get_custom_kwargs cutoff_rule [(''extra'', PStr ''ignored'')]
             = Inl (ValueError [''cutoff_date''] ''cutoff_rule'')"
    by (simp add: get_custom_kwargs_def cutoff_rule_def CLEAN_ENGINE_REQUIRED_PARAMS_def)
  from missing_parameters_raise [OF h1 h2 h3 h4, of "''p''" "''d''" "''s''" "''''" world0] g
  show ?thesis
    by auto
qed

subsection \<open>Adapting a rule\<close>

text \<open>
  C8. For every rule class whose instantiation with the table namer raises a
  \<open>TypeError\<close> and whose instantiation without it succeeds, \<open>infer_rule\<close> instantiates a
  second time without the table namer, logs the warning once, and returns the triple of
  that instance (its module and line being found): the \<open>TypeError\<close> is not raised.
\<close>

theorem infer_rule_retries_without_table_namer:
  assumes "get_custom_kwargs clazz kwargs = Inr kw"
    and "body clazz = CleaningRuleClass init"
    and "init \<lparr>positional = [project_id, dataset_id, sandbox_dataset_id, table_namer],
               keyword_args = kw\<rparr> = Inl (TypeError m)"
    and "init \<lparr>positional = [project_id, dataset_id, sandbox_dataset_id],
               keyword_args = kw\<rparr> = Inr inst"
    and "specs_module inst = Some mname"
    and "specs_sourcelines inst = Inr line"
  shows "infer_rule clazz project_id dataset_id sandbox_dataset_id table_namer kwargs w =
           (Inr (get_query_specs inst, setup_rule inst,
                 \<lparr>info_query_function = get_query_specs inst,
                  info_setup_function = setup_rule inst,
                  info_metadata = \<lparr>function_name = specs_name inst, rule_module = mname,
                                   line_no = line\<rparr>\<rparr>),
            w\<lparr>logged := logged w @ [TableNamerWarning (name clazz)],
              instantiated := instantiated w @
                [(name clazz,
                  \<lparr>positional = [project_id, dataset_id, sandbox_dataset_id, table_namer],
                   keyword_args = kw\<rparr>),
                 (name clazz,
                  \<lparr>positional = [project_id, dataset_id, sandbox_dataset_id],
                   keyword_args = kw\<rparr>)]\<rparr>)"
  using assms by (simp add: infer_rule_def make_rule_info_def Let_def)

lemma DomainAlignment_kwargs: "get_custom_kwargs DomainAlignment [] = Inr []"
  by (simp add: get_custom_kwargs_def DomainAlignment_def CLEAN_ENGINE_REQUIRED_PARAMS_def)

theorem infer_rule_retries_without_table_namer_witness:
  "\<exists>query_function setup_function rule_info.
     infer_rule DomainAlignment ''p'' ''d'' ''s'' '''' [] world0 =
       (Inr (query_function, setup_function, rule_info),
        \<lparr>logged = [TableNamerWarning ''DomainAlignment''], submitted = [],
         attributes = Map.empty,
         instantiated =
           [(''DomainAlignment'', \<lparr>positional = [''p'', ''d'', ''s'', ''''], keyword_args = []\<rparr>),
            (''DomainAlignment'', \<lparr>positional = [''p'', ''d'', ''s''], keyword_args = []\<rparr>)],
         produced = []\<rparr>)
     \<and> query_function world0 = (Inr domain_alignment_queries, world0)"
proof -
  obtain init where b: "body DomainAlignment = CleaningRuleClass init"
    and i4: "init \<lparr>positional = [''p'', ''d'', ''s'', ''''], keyword_args = []\<rparr>
               = Inl (TypeError ''__init__() takes 4 positional arguments'')"
    and i3: "init \<lparr>positional = [''p'', ''d'', ''s''], keyword_args = []\<rparr>
               = Inr \<lparr>get_query_specs = (\<lambda>w. (Inr domain_alignment_queries, w)),
                        setup_rule = (\<lambda>client w. (Inr (), w)),
                        specs_name = ''get_query_specs'',
                        specs_module = Some
                          ''tests.integration_tests.data_steward.cdr_cleaner.cleaning_rules.domain_alignment_test'',
                        specs_sourcelines = Inr 39\<rparr>"
    by (simp add: DomainAlignment_def)
  show ?thesis
    using infer_rule_retries_without_table_namer [OF DomainAlignment_kwargs b i4 i3, of _ 39 world0]
    by (simp add: world0_def DomainAlignment_def)
qed

text \<open>
  A clean function whose module \<^verbatim>\<open>inspect.getmodule\<close> does not find: \<open>infer_rule\<close> raises
  \<open>AttributeError\<close>; there is no placeholder.
\<close>

theorem metadata_placeholder_counterexample:
  "infer_rule unlocated_function ''p'' ''d'' ''s'' '''' [] world0
     = (Inl (AttributeError ''__name__''), world0)"
  by (simp add: infer_rule_def make_rule_info_def get_custom_kwargs_def unlocated_function_def
        CLEAN_ENGINE_REQUIRED_PARAMS_def)

text \<open>
  C9, amended. For every rule whose parameters resolve and, for a rule class, whose
  instantiation succeeds, be it the first or, after a \<open>TypeError\<close> of the first, the second
  without the table namer: when the module of the rule is not found, \<open>infer_rule\<close> raises
  \<open>AttributeError\<close>, and when the module is found but the source line is not, it raises
  the exception of that lookup. No placeholder is put in, and the error ends the loop of
  \<open>get_query_list\<close> and the loop of \<open>clean_dataset\<close> at that rule, whatever rules follow.
\<close>

theorem infer_rule_metadata_raises:
  assumes "get_custom_kwargs clazz kwargs = Inr kw"
    and "(\<exists>f. body clazz = CleanFunction f \<and> getmodule = clazz_module clazz
              \<and> getsourcelines = clazz_sourcelines clazz)
       \<or> (\<exists>init inst. body clazz = CleaningRuleClass init
              \<and> init \<lparr>positional = [project_id, dataset_id, sandbox_dataset_id, table_namer],
                       keyword_args = kw\<rparr> = Inr inst
              \<and> getmodule = specs_module inst \<and> getsourcelines = specs_sourcelines inst)
       \<or> (\<exists>init m inst. body clazz = CleaningRuleClass init
              \<and> init \<lparr>positional = [project_id, dataset_id, sandbox_dataset_id, table_namer],
                       keyword_args = kw\<rparr> = Inl (TypeError m)
              \<and> init \<lparr>positional = [project_id, dataset_id, sandbox_dataset_id],
                       keyword_args = kw\<rparr> = Inr inst
              \<and> getmodule = specs_module inst \<and> getsourcelines = specs_sourcelines inst)"
    and "getmodule = None \<or> getsourcelines = Inl e"
  shows "fst (infer_rule clazz project_id dataset_id sandbox_dataset_id table_namer kwargs w)
           = Inl (if getmodule = None then AttributeError ''__name__'' else e)
       \<and> fst (get_query_list_loop project_id dataset_id sandbox_dataset_id table_namer kwargs
                 ((clazz # others) # rules) all_queries_list w)
           = Inl (if getmodule = None then AttributeError ''__name__'' else e)
       \<and> fst (clean_dataset_loop ext client project_id dataset_id sandbox_dataset_id table_namer
                 kwargs rule_count rule_index ((clazz # others) # rules) all_jobs w)
           = Inl (if getmodule = None then AttributeError ''__name__'' else e)"
proof -
  let ?err = "if getmodule = None then AttributeError ''__name__'' else e"
  have mk: "make_rule_info qf sf fname getmodule getsourcelines = Inl ?err" for qf sf fname
    using assms(3) by (auto simp: make_rule_info_def split: option.splits)
  have inf: "fst (infer_rule clazz project_id dataset_id sandbox_dataset_id table_namer kwargs w)
               = Inl ?err"
    using assms(2)
  proof (elim disjE)
    assume "\<exists>f. body clazz = CleanFunction f \<and> getmodule = clazz_module clazz
              \<and> getsourcelines = clazz_sourcelines clazz"
    then show ?thesis
      using assms(1) mk by (auto simp: infer_rule_def)
  next
    assume "\<exists>init inst. body clazz = CleaningRuleClass init
              \<and> init \<lparr>positional = [project_id, dataset_id, sandbox_dataset_id, table_namer],
                       keyword_args = kw\<rparr> = Inr inst
              \<and> getmodule = specs_module inst \<and> getsourcelines = specs_sourcelines inst"
    then show ?thesis
      using assms(1) mk by (auto simp: infer_rule_def Let_def)
  next
    assume "\<exists>init m inst. body clazz = CleaningRuleClass init
              \<and> init \<lparr>positional = [project_id, dataset_id, sandbox_dataset_id, table_namer],
                       keyword_args = kw\<rparr> = Inl (TypeError m)
              \<and> init \<lparr>positional = [project_id, dataset_id, sandbox_dataset_id],
                       keyword_args = kw\<rparr> = Inr inst
              \<and> getmodule = specs_module inst \<and> getsourcelines = specs_sourcelines inst"
    then show ?thesis
      using assms(1) mk by (auto simp: infer_rule_def Let_def)
  qed
  then obtain w1 where
    "infer_rule clazz project_id dataset_id sandbox_dataset_id table_namer kwargs w = (Inl ?err, w1)"
    by (metis prod.collapse)
  then have "fst (get_query_list_loop project_id dataset_id sandbox_dataset_id table_namer kwargs
                 ((clazz # others) # rules) all_queries_list w) = Inl ?err"
    and "fst (clean_dataset_loop ext client project_id dataset_id sandbox_dataset_id table_namer
                 kwargs rule_count rule_index ((clazz # others) # rules) all_jobs w) = Inl ?err"
    by simp_all
  with inf show ?thesis by blast
qed

lemma unlocated_kwargs: "get_custom_kwargs unlocated_function [] = Inr []"
  by (simp add: get_custom_kwargs_def unlocated_function_def CLEAN_ENGINE_REQUIRED_PARAMS_def)

theorem infer_rule_metadata_raises_witness:
  "fst (infer_rule unlocated_function ''p'' ''d'' ''s'' '''' [] world0)
     = Inl (AttributeError ''__name__'')
   \<and> fst (get_query_list ''p'' ''d'' ''s'' [[unlocated_function], [DomainAlignment]] '''' [] world0)
     = Inl (AttributeError ''__name__'')
   \<and> fst (clean_dataset_loop sample_externals sample_client ''p'' ''d'' ''s'' '''' [] 2 0
            [[unlocated_function], [DomainAlignment]] [] world0)
     = Inl (AttributeError ''__name__'')"
proof -
  have shape: "(\<exists>f. body unlocated_function = CleanFunction f
                  \<and> None = clazz_module unlocated_function
                  \<and> Inl (OSError ''could not find source'') = clazz_sourcelines unlocated_function)
       \<or> (\<exists>init inst. body unlocated_function = CleaningRuleClass init
              \<and> init \<lparr>positional = [''p'', ''d'', ''s'', ''''], keyword_args = []\<rparr> = Inr inst
              \<and> None = specs_module inst
              \<and> Inl (OSError ''could not find source'') = specs_sourcelines inst)
       \<or> (\<exists>init m inst. body unlocated_function = CleaningRuleClass init
              \<and> init \<lparr>positional = [''p'', ''d'', ''s'', ''''], keyword_args = []\<rparr>
                  = Inl (TypeError m)
              \<and> init \<lparr>positional = [''p'', ''d'', ''s''], keyword_args = []\<rparr> = Inr inst
              \<and> None = specs_module inst
              \<and> Inl (OSError ''could not find source'') = specs_sourcelines inst)"
    by (simp add: unlocated_function_def)
  have und: "(None :: string option) = None
             \<or> (Inl (OSError ''could not find source'') :: error + nat)
                 = Inl (OSError ''could not find source'')"
    by simp
  from infer_rule_metadata_raises [OF unlocated_kwargs shape und,
         of world0 "[]" "[[DomainAlignment]]" "[]" sample_externals sample_client 2 0 "[]"]
  show ?thesis
    by (simp add: get_query_list_def)
qed

subsection \<open>Running queries\<close>

lemma running_ids_append: "running_ids (xs @ ys) = running_ids xs @ running_ids ys"
  by (induction xs rule: running_ids.induct) auto


lemma except_not_caught: "\<not> caught e \<Longrightarrow> except client rule_info query_dict e w = (Inl e, w)"
  by (simp add: except_def)

lemma except_raises: "except client rule_info query_dict e w = (Inr js, w') \<longleftrightarrow> False"
  by (simp add: except_def split: sum.splits)







text \<open>The loop, when it returns: one job per query, in the order of the queries.\<close>

lemma run_queries_loop_returns:
  "run_queries_loop from_str client rule_info query_count query_no query_list jobs w = (Inr js, w')
   \<Longrightarrow> \<exists>new. js = jobs @ new
         \<and> list_all2 (\<lambda>query_dict job. \<exists>job_config.
                generate_job_config from_str (project client) query_dict = Inr job_config
              \<and> submitted_as job = query_args rule_info query_dict job_config
              \<and> errors job = [])
              query_list new"
proof (induction query_list arbitrary: query_no jobs w)
  case Nil
  then show ?case by simp
next
  case (Cons q rest)
  from Cons.prems obtain cfg where cfg: "generate_job_config from_str (project client) q = Inr cfg"
    by (cases "generate_job_config from_str (project client) q") (simp_all add: except_raises)
  from Cons.prems cfg obtain jid res where
    sub: "run_job client (submitted w) (query_args rule_info q cfg) = Submitted jid res"
    by (cases "run_job client (submitted w) (query_args rule_info q cfg)")
       (simp_all add: except_raises Let_def)
  from Cons.prems cfg sub have res: "res = Completed []"
    by (cases res) (simp_all add: except_raises Let_def split: if_splits)
  let ?job = "\<lparr>job_id = jid, submitted_as = query_args rule_info q cfg, errors = []\<rparr>"
  from Cons.prems cfg sub res obtain w2 where
    "run_queries_loop from_str client rule_info query_count (Suc query_no) rest (jobs @ [?job]) w2
       = (Inr js, w')"
    by (simp add: Let_def)
  from Cons.IH [OF this] obtain new where
    "js = (jobs @ [?job]) @ new"
    "list_all2 (\<lambda>query_dict job. \<exists>job_config.
                generate_job_config from_str (project client) query_dict = Inr job_config
              \<and> submitted_as job = query_args rule_info query_dict job_config
              \<and> errors job = []) rest new"
    by blast
  then show ?case
    using cfg by (intro exI [of _ "?job # new"]) auto
qed

subsection \<open>The pipeline and the preview\<close>

text \<open>What \<open>infer_rule\<close> returns does not depend on the world it starts in, and it leaves
  the record of the query lists as it is.\<close>

lemma infer_rule_fst:
  "fst (infer_rule clazz project_id dataset_id sandbox_dataset_id table_namer kwargs w) =
   fst (infer_rule clazz project_id dataset_id sandbox_dataset_id table_namer kwargs w0)"
  by (simp add: infer_rule_def Let_def split: sum.splits callable.splits error.splits)

lemma infer_rule_produced:
  "produced (snd (infer_rule clazz project_id dataset_id sandbox_dataset_id table_namer kwargs w))
     = produced w"
  by (simp add: infer_rule_def Let_def split: sum.splits callable.splits error.splits)

lemma rule_call_fst: "fst (rule_call f w) = fst (f w)"
  by (simp add: rule_call_def split: prod.splits)

lemma rule_call_produced: "produced (snd (rule_call f w)) = produced w"
  by (simp add: rule_call_def split: prod.splits)

lemma except_produced: "produced (snd (except client rule_info query_dict e w)) = produced w"
  by (simp add: except_def split: sum.splits)

lemma run_queries_loop_produced:
  "produced (snd (run_queries_loop from_str client rule_info query_count query_no query_list
                    jobs w)) = produced w"
proof (induction query_list arbitrary: query_no jobs w)
  case Nil
  then show ?case by simp
next
  case (Cons q rest)
  show ?case
    by (simp add: Let_def except_produced Cons.IH
          split: sum.splits submit_outcome.splits job_result.splits)
qed

lemma list_all2_concat:
  "list_all2 (list_all2 P) xss yss \<Longrightarrow> list_all2 P (concat xss) (concat yss)"
  by (induction rule: list_all2_induct) (auto intro: list_all2_appendI)

text \<open>
  The loop of \<open>clean_dataset\<close>, when it returns: the jobs are those collected before,
  followed rule by rule by one run each, a run being the query list the rule's query
  function returned, which is the one noted in \<open>produced\<close>, and the jobs of these queries
  in order.
\<close>

lemma clean_dataset_loop_returns:
  "clean_dataset_loop ext client project_id dataset_id sandbox_dataset_id table_namer kwargs
     rule_count rule_index rules all_jobs w = (Inr js, w')
   \<Longrightarrow> \<exists>runs. js = all_jobs @ concat (map snd runs)
         \<and> produced w' = produced w @ map fst runs
         \<and> list_all2 (\<lambda>rule (query_list, jobs).
               \<exists>clazz rest query_function setup_function rule_info wq.
                  rule = clazz # rest
                \<and> fst (infer_rule clazz project_id dataset_id sandbox_dataset_id table_namer
                          kwargs w0) = Inr (query_function, setup_function, rule_info)
                \<and> fst (query_function wq) = Inr query_list
                \<and> list_all2 (\<lambda>query_dict job. \<exists>job_config.
                      generate_job_config (table_from_string ext) (project client) query_dict
                        = Inr job_config
                    \<and> submitted_as job = query_args rule_info query_dict job_config
                    \<and> errors job = [])
                    query_list jobs)
              rules runs"
proof (induction rules arbitrary: rule_index all_jobs w)
  case Nil
  then show ?case by simp
next
  case (Cons rule rules)
  from Cons.prems obtain clazz rest where rule: "rule = clazz # rest"
    by (cases rule) simp_all
  obtain r w1 where
    inf: "infer_rule clazz project_id dataset_id sandbox_dataset_id table_namer kwargs w = (r, w1)"
    by (cases "infer_rule clazz project_id dataset_id sandbox_dataset_id table_namer kwargs w")
  from Cons.prems rule inf obtain qf sf info where r: "r = Inr (qf, sf, info)"
    by (cases r) auto
  have p1: "produced w1 = produced w"
    using infer_rule_produced [of clazz project_id dataset_id sandbox_dataset_id table_namer
            kwargs w] inf by simp
  let ?w2 = "w1\<lparr>logged := logged w1 @
               [ApplyingRule (rule_module (info_metadata info)) (rule_index + 1) rule_count]\<rparr>"
  obtain sr w3 where stp: "rule_call (sf client) ?w2 = (sr, w3)"
    by (cases "rule_call (sf client) ?w2")
  from Cons.prems rule inf r stp obtain u where sr: "sr = Inr u"
    by (cases sr) (auto simp: Let_def)
  have p3: "produced w3 = produced w"
    using rule_call_produced [of "sf client" ?w2] stp p1 by simp
  obtain qr w4 where prd: "rule_call qf w3 = (qr, w4)"
    by (cases "rule_call qf w3")
  from Cons.prems rule inf r stp sr prd obtain ql where qr: "qr = Inr ql"
    by (cases qr) (auto simp: Let_def)
  have ql: "fst (qf w3) = Inr ql"
    using rule_call_fst [of qf w3] prd qr by simp
  have p4: "produced w4 = produced w"
    using rule_call_produced [of qf w3] prd p3 by simp
  let ?w5 = "w4\<lparr>produced := produced w4 @ [ql]\<rparr>"
  obtain rr w6 where run: "run_queries (table_from_string ext) client ql info ?w5 = (rr, w6)"
    by (cases "run_queries (table_from_string ext) client ql info ?w5")
  from Cons.prems rule inf r stp sr prd qr run obtain jobs where rr: "rr = Inr jobs"
    by (cases rr) (auto simp: Let_def)
  have p6: "produced w6 = produced w @ [ql]"
    using run_queries_loop_produced [of "table_from_string ext" client info "length ql" 0 ql "[]" ?w5]
      run p4 by (simp add: run_queries_def)
  let ?w7 = "w6\<lparr>logged := logged w6 @
               [RuleSummary (rule_module (info_metadata info)) (length jobs) (length ql)]\<rparr>"
  from Cons.prems rule inf r stp sr prd qr run rr have
    rec: "clean_dataset_loop ext client project_id dataset_id sandbox_dataset_id table_namer kwargs
            rule_count (Suc rule_index) rules (all_jobs @ jobs) ?w7 = (Inr js, w')"
    by (simp add: Let_def)
  from run rr
  have "run_queries_loop (table_from_string ext) client info (length ql) 0 ql [] ?w5
          = (Inr jobs, w6)"
    by (simp add: run_queries_def)
  from run_queries_loop_returns [OF this]
  have jobs: "list_all2 (\<lambda>query_dict job. \<exists>job_config.
                      generate_job_config (table_from_string ext) (project client) query_dict
                        = Inr job_config
                    \<and> submitted_as job = query_args info query_dict job_config
                    \<and> errors job = []) ql jobs"
    by simp
  have inf0: "fst (infer_rule clazz project_id dataset_id sandbox_dataset_id table_namer kwargs w0)
          = Inr (qf, sf, info)"
    using inf r
      infer_rule_fst [of clazz project_id dataset_id sandbox_dataset_id table_namer kwargs w0 w]
    by simp
  from Cons.IH [OF rec] obtain runs where
    a: "js = (all_jobs @ jobs) @ concat (map snd runs)"
    and b: "produced w' = produced ?w7 @ map fst runs"
    and c: "list_all2 (\<lambda>rule (query_list, jobs).
               \<exists>clazz rest query_function setup_function rule_info wq.
                  rule = clazz # rest
                \<and> fst (infer_rule clazz project_id dataset_id sandbox_dataset_id table_namer
                          kwargs w0) = Inr (query_function, setup_function, rule_info)
                \<and> fst (query_function wq) = Inr query_list
                \<and> list_all2 (\<lambda>query_dict job. \<exists>job_config.
                      generate_job_config (table_from_string ext) (project client) query_dict
                        = Inr job_config
                    \<and> submitted_as job = query_args rule_info query_dict job_config
                    \<and> errors job = [])
                    query_list jobs)
              rules runs"
    by blast
  show ?case
    using a b c p6 rule inf0 ql jobs by (intro exI [of _ "(ql, jobs) # runs"]) auto
qed

lemma clean_dataset_returns:
  assumes "fst (clean_dataset ext project_id dataset_id sandbox_dataset_id rules table_namer run_as
                  kwargs w) = Inr all_jobs"
  shows "\<exists>runs. all_jobs = concat (map snd runs)
         \<and> produced (snd (clean_dataset ext project_id dataset_id sandbox_dataset_id rules
                             table_namer run_as kwargs w)) = produced w @ map fst runs
         \<and> list_all2 (\<lambda>rule (query_list, jobs).
               \<exists>clazz rest query_function setup_function rule_info wq.
                  rule = clazz # rest
                \<and> fst (infer_rule clazz project_id dataset_id sandbox_dataset_id table_namer
                          kwargs w0) = Inr (query_function, setup_function, rule_info)
                \<and> fst (query_function wq) = Inr query_list
                \<and> list_all2 (\<lambda>query_dict job. \<exists>job_config.
                      generate_job_config (table_from_string ext) project_id query_dict
                        = Inr job_config
                    \<and> submitted_as job = query_args rule_info query_dict job_config
                    \<and> errors job = [])
                    query_list jobs)
              rules runs"
proof -
  from assms obtain creds where
    cd: "clean_dataset ext project_id dataset_id sandbox_dataset_id rules table_namer run_as kwargs w
         = clean_dataset_loop ext
            \<lparr>project = project_id, credentials = creds, run_job = warehouse ext\<rparr>
            project_id dataset_id sandbox_dataset_id table_namer kwargs (length rules) 0 rules [] w"
    by (auto simp: clean_dataset_def Let_def split: option.splits if_splits sum.splits)
  with assms obtain w' where
    "clean_dataset_loop ext
            \<lparr>project = project_id, credentials = creds, run_job = warehouse ext\<rparr>
            project_id dataset_id sandbox_dataset_id table_namer kwargs (length rules) 0 rules [] w
     = (Inr all_jobs, w')"
    by (metis prod.collapse)
  from clean_dataset_loop_returns [OF this, of w0] cd this show ?thesis
    by simp
qed

text \<open>The sample run: \<^verbatim>\<open>DomainAlignment\<close>, then \<^verbatim>\<open>QRIDtoRID\<close>.\<close>

lemma sample_run:
  "fst (clean_dataset sample_externals ''p'' ''d'' ''s'' [[DomainAlignment], [QRIDtoRID]]
          '''' None sample_kwargs world0) = Inr sample_jobs"
  by (simp add: clean_dataset_def infer_rule_def get_custom_kwargs_def make_rule_info_def
        run_queries_def generate_job_config_def dict_get_def dict_get_default_def query_args_def
        DomainAlignment_def QRIDtoRID_def domain_alignment_queries_def rule_call_def
        CLEAN_ENGINE_REQUIRED_PARAMS_def sample_externals_def sample_warehouse_def
        sample_kwargs_def sample_jobs_def
        from_string_3_def world0_def QueryJobConfig_def WRITE_EMPTY_def Let_def)

text \<open>
  C2. For every ordered list of rules on which \<open>clean_dataset\<close> returns, the jobs it
  returns are the concatenation, in the order of the rules, of one run per rule; the run
  of a rule holds the query list the rule's query function returned to the engine (the
  lists are those noted in \<open>produced\<close>, in order) and one job per query of that list, in
  the order of the list, each job submitted with the arguments built for its query. So
  every job of an earlier rule stands before every job of a later rule, and within a
  rule the jobs follow the query list. This holds whatever the setup functions do.
\<close>

theorem clean_dataset_job_order:
  assumes "fst (clean_dataset ext project_id dataset_id sandbox_dataset_id rules table_namer run_as
                  kwargs w) = Inr all_jobs"
  shows "\<exists>runs. all_jobs = concat (map snd runs)
         \<and> produced (snd (clean_dataset ext project_id dataset_id sandbox_dataset_id rules
                             table_namer run_as kwargs w)) = produced w @ map fst runs
         \<and> list_all2 (\<lambda>rule (query_list, jobs).
               \<exists>clazz rest query_function setup_function rule_info wq.
                  rule = clazz # rest
                \<and> fst (infer_rule clazz project_id dataset_id sandbox_dataset_id table_namer
                          kwargs w) = Inr (query_function, setup_function, rule_info)
                \<and> fst (query_function wq) = Inr query_list
                \<and> list_all2 (\<lambda>query_dict job. \<exists>job_config.
                      generate_job_config (table_from_string ext) project_id query_dict
                        = Inr job_config
                    \<and> submitted_as job = query_args rule_info query_dict job_config
                    \<and> errors job = [])
                    query_list jobs)
              rules runs"
  using assms by (rule clean_dataset_returns)

theorem clean_dataset_job_order_witness:
  "\<exists>runs. sample_jobs = concat (map snd runs)
   \<and> produced (snd (clean_dataset sample_externals ''p'' ''d'' ''s''
                       [[DomainAlignment], [QRIDtoRID]] '''' None sample_kwargs world0))
       = produced world0 @ map fst runs
   \<and> list_all2 (\<lambda>rule (query_list, jobs).
         \<exists>clazz rest query_function setup_function rule_info wq.
            rule = clazz # rest
          \<and> fst (infer_rule clazz ''p'' ''d'' ''s'' '''' sample_kwargs world0)
              = Inr (query_function, setup_function, rule_info)
          \<and> fst (query_function wq) = Inr query_list
          \<and> list_all2 (\<lambda>query_dict job. \<exists>job_config.
                generate_job_config (table_from_string sample_externals) ''p'' query_dict
                  = Inr job_config
              \<and> submitted_as job = query_args rule_info query_dict job_config
              \<and> errors job = [])
              query_list jobs)
        [[DomainAlignment], [QRIDtoRID]] runs"
  using clean_dataset_job_order [OF sample_run] .

subsection \<open>The preview against the execution\<close>

lemma run_queries_jobs:
  assumes "run_queries from_str client query_list rule_info w = (Inr jobs, w')"
  shows "list_all2 (\<lambda>query_dict job.
             query (submitted_as job) = dict_get query_dict QUERY
           \<and> generate_job_config from_str (project client) query_dict
               = Inr (sub_job_config (submitted_as job))
           \<and> errors job = [])
           query_list jobs"
proof -
  from assms
  have "run_queries_loop from_str client rule_info (length query_list) 0 query_list [] w
          = (Inr jobs, w')"
    by (simp add: run_queries_def)
  from run_queries_loop_returns [OF this]
  have "list_all2 (\<lambda>query_dict job. \<exists>job_config.
                generate_job_config from_str (project client) query_dict = Inr job_config
              \<and> submitted_as job = query_args rule_info query_dict job_config
              \<and> errors job = [])
              query_list jobs"
    by simp
  then show ?thesis
    by (rule list_all2_mono) (auto simp: query_args_def Let_def)
qed

text \<open>
  The loop of \<open>get_query_list\<close> notes the query lists it gets after those noted before,
  and what it returns is what it started with, followed by these lists.
\<close>

lemma get_query_list_loop_produced:
  "\<exists>more. produced (snd (get_query_list_loop project_id dataset_id sandbox_dataset_id
                            table_namer kwargs rules acc w)) = produced w @ more
         \<and> (\<forall>qs. fst (get_query_list_loop project_id dataset_id sandbox_dataset_id
                          table_namer kwargs rules acc w) = Inr qs
                \<longrightarrow> qs = acc @ concat more)"
proof (induction rules arbitrary: acc w)
  case Nil
  show ?case by simp
next
  case (Cons rule rules)
  note IH = Cons.IH
  show ?case
  proof (cases rule)
    case Nil
    then show ?thesis by simp
  next
    case rule: (Cons clazz rest)
    obtain r w1 where
      inf: "infer_rule clazz project_id dataset_id sandbox_dataset_id table_namer kwargs w = (r, w1)"
      by (cases "infer_rule clazz project_id dataset_id sandbox_dataset_id table_namer kwargs w")
    have p1: "produced w1 = produced w"
      using infer_rule_produced [of clazz project_id dataset_id sandbox_dataset_id table_namer
              kwargs w] inf by simp
    show ?thesis
    proof (cases r)
      case (Inl e)
      with rule inf p1 show ?thesis by simp
    next
      case (Inr t)
      obtain qf sf info where t: "t = (qf, sf, info)"
        by (cases t)
      obtain qr w2 where prd: "rule_call qf w1 = (qr, w2)"
        by (cases "rule_call qf w1")
      have p2: "produced w2 = produced w"
        using rule_call_produced [of qf w1] prd p1 by simp
      show ?thesis
      proof (cases qr)
        case (Inl e)
        with rule inf Inr t prd p2 show ?thesis by simp
      next
        case ql: (Inr ql)
        let ?w3 = "w2\<lparr>produced := produced w2 @ [ql]\<rparr>"
        have step: "get_query_list_loop project_id dataset_id sandbox_dataset_id table_namer
                      kwargs (rule # rules) acc w
                    = get_query_list_loop project_id dataset_id sandbox_dataset_id table_namer
                        kwargs rules (acc @ ql) ?w3"
          using rule inf Inr t prd ql by simp
        from IH [of "acc @ ql" ?w3] obtain more where
          a: "produced (snd (get_query_list_loop project_id dataset_id sandbox_dataset_id
                               table_namer kwargs rules (acc @ ql) ?w3)) = produced ?w3 @ more"
          and b: "\<forall>qs. fst (get_query_list_loop project_id dataset_id sandbox_dataset_id
                          table_namer kwargs rules (acc @ ql) ?w3) = Inr qs
                \<longrightarrow> qs = (acc @ ql) @ concat more"
          by blast
        show ?thesis
          unfolding step using a b p2 by (intro exI [of _ "ql # more"]) simp
      qed
    qed
  qed
qed

text \<open>
  The two loops side by side, on rules whose query functions return the same in every
  state: the lists the execution has got when it ends, by returning or by raising, are
  the first of those the preview gets.
\<close>

lemma loops_parity:
  assumes "\<forall>rule \<in> set rules. \<forall>clazz rest query_function setup_function rule_info.
             rule = clazz # rest
           \<and> fst (infer_rule clazz project_id dataset_id sandbox_dataset_id table_namer kwargs w0)
               = Inr (query_function, setup_function, rule_info)
           \<longrightarrow> (\<forall>wa wb. fst (query_function wa) = fst (query_function wb))"
  shows "\<exists>obtained more.
           produced (snd (clean_dataset_loop ext client project_id dataset_id sandbox_dataset_id
                            table_namer kwargs rule_count rule_index rules all_jobs w))
             = produced w @ obtained
         \<and> produced (snd (get_query_list_loop project_id dataset_id sandbox_dataset_id
                            table_namer kwargs rules acc wp)) = produced wp @ obtained @ more
         \<and> (\<forall>qs. fst (get_query_list_loop project_id dataset_id sandbox_dataset_id
                          table_namer kwargs rules acc wp) = Inr qs
                \<longrightarrow> qs = acc @ concat (obtained @ more))
         \<and> (\<forall>js. fst (clean_dataset_loop ext client project_id dataset_id sandbox_dataset_id
                          table_namer kwargs rule_count rule_index rules all_jobs w) = Inr js
                \<longrightarrow> more = []
                  \<and> fst (get_query_list_loop project_id dataset_id sandbox_dataset_id
                          table_namer kwargs rules acc wp) = Inr (acc @ concat obtained)
                  \<and> list_all2 (\<lambda>rule query_list.
                        \<exists>clazz rest query_function setup_function rule_info.
                           rule = clazz # rest
                         \<and> fst (infer_rule clazz project_id dataset_id sandbox_dataset_id
                                  table_namer kwargs w0)
                             = Inr (query_function, setup_function, rule_info)
                         \<and> (\<forall>wq. fst (query_function wq) = Inr query_list))
                       rules obtained
                  \<and> (\<exists>new. js = all_jobs @ new
                         \<and> list_all2 (\<lambda>query_dict job.
                               query (submitted_as job) = dict_get query_dict QUERY
                             \<and> generate_job_config (table_from_string ext) (project client)
                                 query_dict = Inr (sub_job_config (submitted_as job))
                             \<and> errors job = [])
                             (concat obtained) new))"
  using assms
proof (induction rules arbitrary: rule_index all_jobs w acc wp)
  case Nil
  show ?case by simp
next
  case (Cons rule rules)
  have tail: "\<forall>rule \<in> set rules. \<forall>clazz rest query_function setup_function rule_info.
             rule = clazz # rest
           \<and> fst (infer_rule clazz project_id dataset_id sandbox_dataset_id table_namer kwargs w0)
               = Inr (query_function, setup_function, rule_info)
           \<longrightarrow> (\<forall>wa wb. fst (query_function wa) = fst (query_function wb))"
  proof (intro ballI)
    fix r
    assume "r \<in> set rules"
    then have "r \<in> set (rule # rules)"
      by simp
    with Cons.prems
    show "\<forall>clazz rest query_function setup_function rule_info.
             r = clazz # rest
           \<and> fst (infer_rule clazz project_id dataset_id sandbox_dataset_id table_namer kwargs w0)
               = Inr (query_function, setup_function, rule_info)
           \<longrightarrow> (\<forall>wa wb. fst (query_function wa) = fst (query_function wb))"
      by (rule bspec)
  qed
  have first: "\<forall>clazz rest query_function setup_function rule_info.
             rule = clazz # rest
           \<and> fst (infer_rule clazz project_id dataset_id sandbox_dataset_id table_namer kwargs w0)
               = Inr (query_function, setup_function, rule_info)
           \<longrightarrow> (\<forall>wa wb. fst (query_function wa) = fst (query_function wb))"
    using Cons.prems by (rule bspec) simp
  note IH = Cons.IH [OF tail]
  show ?case
  proof (cases rule)
    case Nil
    then show ?thesis by simp
  next
    case rule: (Cons clazz rest)
    obtain r w1 where
      inf: "infer_rule clazz project_id dataset_id sandbox_dataset_id table_namer kwargs w = (r, w1)"
      by (cases "infer_rule clazz project_id dataset_id sandbox_dataset_id table_namer kwargs w")
    obtain r' wp1 where
      infp: "infer_rule clazz project_id dataset_id sandbox_dataset_id table_namer kwargs wp
               = (r', wp1)"
      by (cases "infer_rule clazz project_id dataset_id sandbox_dataset_id table_namer kwargs wp")
    have r': "r' = r"
      using inf infp
        infer_rule_fst [of clazz project_id dataset_id sandbox_dataset_id table_namer kwargs wp w]
      by simp
    have r0: "fst (infer_rule clazz project_id dataset_id sandbox_dataset_id table_namer kwargs w0)
                = r"
      using inf
        infer_rule_fst [of clazz project_id dataset_id sandbox_dataset_id table_namer kwargs w0 w]
      by simp
    have p1: "produced w1 = produced w"
      using infer_rule_produced [of clazz project_id dataset_id sandbox_dataset_id table_namer
              kwargs w] inf by simp
    have pp1: "produced wp1 = produced wp"
      using infer_rule_produced [of clazz project_id dataset_id sandbox_dataset_id table_namer
              kwargs wp] infp by simp
    show ?thesis
    proof (cases r)
      case (Inl e)
      with rule inf infp r' p1 pp1 show ?thesis by simp
    next
      case (Inr t)
      obtain qf sf info where t: "t = (qf, sf, info)"
        by (cases t)
      have indep: "fst (qf wa) = fst (qf wb)" for wa wb
        using first rule r0 Inr t by blast
      let ?w2 = "w1\<lparr>logged := logged w1 @
                   [ApplyingRule (rule_module (info_metadata info)) (rule_index + 1) rule_count]\<rparr>"
      obtain sr w3 where stp: "rule_call (sf client) ?w2 = (sr, w3)"
        by (cases "rule_call (sf client) ?w2")
      have p3: "produced w3 = produced w"
        using rule_call_produced [of "sf client" ?w2] stp p1 by simp
      show ?thesis
      proof (cases sr)
        case (Inl e)
        have ex: "clean_dataset_loop ext client project_id dataset_id sandbox_dataset_id
                    table_namer kwargs rule_count rule_index (rule # rules) all_jobs w
                  = (Inl e, w3)"
          using rule inf Inr t stp Inl by (simp add: Let_def)
        from get_query_list_loop_produced
               [of project_id dataset_id sandbox_dataset_id table_namer kwargs "rule # rules" acc wp]
        obtain more where
          "produced (snd (get_query_list_loop project_id dataset_id sandbox_dataset_id
                            table_namer kwargs (rule # rules) acc wp)) = produced wp @ more"
          "\<forall>qs. fst (get_query_list_loop project_id dataset_id sandbox_dataset_id
                          table_namer kwargs (rule # rules) acc wp) = Inr qs
                \<longrightarrow> qs = acc @ concat more"
          by blast
        then show ?thesis
          unfolding ex using p3 by - (rule exI [of _ "[]"], rule exI [of _ more], simp)
      next
        case u: (Inr u)
        obtain qr w4 where prd: "rule_call qf w3 = (qr, w4)"
          by (cases "rule_call qf w3")
        obtain qr' wp2 where prdp: "rule_call qf wp1 = (qr', wp2)"
          by (cases "rule_call qf wp1")
        have qr': "qr' = qr"
          using prd prdp rule_call_fst [of qf w3] rule_call_fst [of qf wp1] indep [of w3 wp1]
          by simp
        have p4: "produced w4 = produced w"
          using rule_call_produced [of qf w3] prd p3 by simp
        have pp2: "produced wp2 = produced wp"
          using rule_call_produced [of qf wp1] prdp pp1 by simp
        show ?thesis
        proof (cases qr)
          case (Inl e)
          have ex: "clean_dataset_loop ext client project_id dataset_id sandbox_dataset_id
                      table_namer kwargs rule_count rule_index (rule # rules) all_jobs w
                    = (Inl e, w4)"
            using rule inf Inr t stp u prd Inl by (simp add: Let_def)
          have pr: "get_query_list_loop project_id dataset_id sandbox_dataset_id table_namer
                      kwargs (rule # rules) acc wp = (Inl e, wp2)"
            using rule infp r' Inr t prdp qr' Inl by simp
          show ?thesis
            unfolding ex pr using p4 pp2 by simp
        next
          case ql: (Inr ql)
          have every: "fst (qf wq) = Inr ql" for wq
            using prd ql rule_call_fst [of qf w3] indep [of wq w3] by simp
          let ?wp3 = "wp2\<lparr>produced := produced wp2 @ [ql]\<rparr>"
          have pr: "get_query_list_loop project_id dataset_id sandbox_dataset_id table_namer
                        kwargs (rule # rules) acc wp
                      = get_query_list_loop project_id dataset_id sandbox_dataset_id table_namer
                          kwargs rules (acc @ ql) ?wp3"
            using rule infp r' Inr t prdp qr' ql by simp
          let ?w5 = "w4\<lparr>produced := produced w4 @ [ql]\<rparr>"
          obtain rr w6 where
            run: "run_queries (table_from_string ext) client ql info ?w5 = (rr, w6)"
            by (cases "run_queries (table_from_string ext) client ql info ?w5")
          have p6: "produced w6 = produced w @ [ql]"
            using run_queries_loop_produced
                    [of "table_from_string ext" client info "length ql" 0 ql "[]" ?w5]
              run p4 by (simp add: run_queries_def)
          show ?thesis
          proof (cases rr)
            case (Inl e)
            have ex: "clean_dataset_loop ext client project_id dataset_id sandbox_dataset_id
                        table_namer kwargs rule_count rule_index (rule # rules) all_jobs w
                      = (Inl e, w6)"
              using rule inf Inr t stp u prd ql run Inl by (simp add: Let_def)
            from get_query_list_loop_produced
                   [of project_id dataset_id sandbox_dataset_id table_namer kwargs rules
                       "acc @ ql" ?wp3]
            obtain more where
              "produced (snd (get_query_list_loop project_id dataset_id sandbox_dataset_id
                                table_namer kwargs rules (acc @ ql) ?wp3)) = produced ?wp3 @ more"
              "\<forall>qs. fst (get_query_list_loop project_id dataset_id sandbox_dataset_id
                              table_namer kwargs rules (acc @ ql) ?wp3) = Inr qs
                    \<longrightarrow> qs = (acc @ ql) @ concat more"
              by blast
            then show ?thesis
              unfolding ex pr using p6 pp2
              by - (rule exI [of _ "[ql]"], rule exI [of _ more], simp)
          next
            case jobs: (Inr jobs)
            let ?w7 = "w6\<lparr>logged := logged w6 @
                         [RuleSummary (rule_module (info_metadata info)) (length jobs)
                            (length ql)]\<rparr>"
            have ex: "clean_dataset_loop ext client project_id dataset_id sandbox_dataset_id
                        table_namer kwargs rule_count rule_index (rule # rules) all_jobs w
                      = clean_dataset_loop ext client project_id dataset_id sandbox_dataset_id
                          table_namer kwargs rule_count (Suc rule_index) rules (all_jobs @ jobs)
                          ?w7"
              using rule inf Inr t stp u prd ql run jobs by (simp add: Let_def)
            have ran: "list_all2 (\<lambda>query_dict job.
                               query (submitted_as job) = dict_get query_dict QUERY
                             \<and> generate_job_config (table_from_string ext) (project client)
                                 query_dict = Inr (sub_job_config (submitted_as job))
                             \<and> errors job = []) ql jobs"
              using run jobs by (intro run_queries_jobs) simp
            from IH [of "Suc rule_index" "all_jobs @ jobs" ?w7 "acc @ ql" ?wp3]
            obtain obtained more where
              a: "produced (snd (clean_dataset_loop ext client project_id dataset_id
                     sandbox_dataset_id table_namer kwargs rule_count (Suc rule_index) rules
                     (all_jobs @ jobs) ?w7)) = produced ?w7 @ obtained"
              and b: "produced (snd (get_query_list_loop project_id dataset_id sandbox_dataset_id
                            table_namer kwargs rules (acc @ ql) ?wp3))
                        = produced ?wp3 @ obtained @ more"
              and c: "\<forall>qs. fst (get_query_list_loop project_id dataset_id sandbox_dataset_id
                          table_namer kwargs rules (acc @ ql) ?wp3) = Inr qs
                    \<longrightarrow> qs = (acc @ ql) @ concat (obtained @ more)"
              and d: "\<forall>js. fst (clean_dataset_loop ext client project_id dataset_id
                          sandbox_dataset_id table_namer kwargs rule_count (Suc rule_index) rules
                          (all_jobs @ jobs) ?w7) = Inr js
                \<longrightarrow> more = []
                  \<and> fst (get_query_list_loop project_id dataset_id sandbox_dataset_id
                          table_namer kwargs rules (acc @ ql) ?wp3)
                      = Inr ((acc @ ql) @ concat obtained)
                  \<and> list_all2 (\<lambda>rule query_list.
                        \<exists>clazz rest query_function setup_function rule_info.
                           rule = clazz # rest
                         \<and> fst (infer_rule clazz project_id dataset_id sandbox_dataset_id
                                  table_namer kwargs w0)
                             = Inr (query_function, setup_function, rule_info)
                         \<and> (\<forall>wq. fst (query_function wq) = Inr query_list))
                       rules obtained
                  \<and> (\<exists>new. js = (all_jobs @ jobs) @ new
                         \<and> list_all2 (\<lambda>query_dict job.
                               query (submitted_as job) = dict_get query_dict QUERY
                             \<and> generate_job_config (table_from_string ext) (project client)
                                 query_dict = Inr (sub_job_config (submitted_as job))
                             \<and> errors job = [])
                             (concat obtained) new)"
              by blast
            have head: "\<exists>clazz rest query_function setup_function rule_info.
                           rule = clazz # rest
                         \<and> fst (infer_rule clazz project_id dataset_id sandbox_dataset_id
                                  table_namer kwargs w0)
                             = Inr (query_function, setup_function, rule_info)
                         \<and> (\<forall>wq. fst (query_function wq) = Inr ql)"
              using rule r0 Inr t every by blast
            have e: "\<forall>js. fst (clean_dataset_loop ext client project_id dataset_id
                          sandbox_dataset_id table_namer kwargs rule_count (Suc rule_index) rules
                          (all_jobs @ jobs) ?w7) = Inr js
                \<longrightarrow> (\<exists>new. js = all_jobs @ new
                         \<and> list_all2 (\<lambda>query_dict job.
                               query (submitted_as job) = dict_get query_dict QUERY
                             \<and> generate_job_config (table_from_string ext) (project client)
                                 query_dict = Inr (sub_job_config (submitted_as job))
                             \<and> errors job = [])
                             (concat (ql # obtained)) new)"
            proof (intro allI impI)
              fix js
              assume "fst (clean_dataset_loop ext client project_id dataset_id
                          sandbox_dataset_id table_namer kwargs rule_count (Suc rule_index) rules
                          (all_jobs @ jobs) ?w7) = Inr js"
              with d obtain new where
                n: "js = (all_jobs @ jobs) @ new"
                and l: "list_all2 (\<lambda>query_dict job.
                               query (submitted_as job) = dict_get query_dict QUERY
                             \<and> generate_job_config (table_from_string ext) (project client)
                                 query_dict = Inr (sub_job_config (submitted_as job))
                             \<and> errors job = [])
                             (concat obtained) new"
                by blast
              from list_all2_appendI [OF ran l] n
              show "\<exists>new. js = all_jobs @ new
                         \<and> list_all2 (\<lambda>query_dict job.
                               query (submitted_as job) = dict_get query_dict QUERY
                             \<and> generate_job_config (table_from_string ext) (project client)
                                 query_dict = Inr (sub_job_config (submitted_as job))
                             \<and> errors job = [])
                             (concat (ql # obtained)) new"
                by (intro exI [of _ "jobs @ new"]) simp
            qed
            show ?thesis
              unfolding ex pr
            proof (rule exI [of _ "ql # obtained"], rule exI [of _ more], intro conjI)
              show "produced (snd (clean_dataset_loop ext client project_id dataset_id
                     sandbox_dataset_id table_namer kwargs rule_count (Suc rule_index) rules
                     (all_jobs @ jobs) ?w7)) = produced w @ ql # obtained"
                using a p6 by simp
              show "produced (snd (get_query_list_loop project_id dataset_id sandbox_dataset_id
                            table_namer kwargs rules (acc @ ql) ?wp3))
                        = produced wp @ (ql # obtained) @ more"
                using b pp2 by simp
              show "\<forall>qs. fst (get_query_list_loop project_id dataset_id sandbox_dataset_id
                          table_namer kwargs rules (acc @ ql) ?wp3) = Inr qs
                    \<longrightarrow> qs = acc @ concat ((ql # obtained) @ more)"
                using c by simp
              show "\<forall>js. fst (clean_dataset_loop ext client project_id dataset_id
                          sandbox_dataset_id table_namer kwargs rule_count (Suc rule_index) rules
                          (all_jobs @ jobs) ?w7) = Inr js
                \<longrightarrow> more = []
                  \<and> fst (get_query_list_loop project_id dataset_id sandbox_dataset_id
                          table_namer kwargs rules (acc @ ql) ?wp3)
                      = Inr (acc @ concat (ql # obtained))
                  \<and> list_all2 (\<lambda>rule query_list.
                        \<exists>clazz rest query_function setup_function rule_info.
                           rule = clazz # rest
                         \<and> fst (infer_rule clazz project_id dataset_id sandbox_dataset_id
                                  table_namer kwargs w0)
                             = Inr (query_function, setup_function, rule_info)
                         \<and> (\<forall>wq. fst (query_function wq) = Inr query_list))
                       (rule # rules) (ql # obtained)
                  \<and> (\<exists>new. js = all_jobs @ new
                         \<and> list_all2 (\<lambda>query_dict job.
                               query (submitted_as job) = dict_get query_dict QUERY
                             \<and> generate_job_config (table_from_string ext) (project client)
                                 query_dict = Inr (sub_job_config (submitted_as job))
                             \<and> errors job = [])
                             (concat (ql # obtained)) new)"
                using d e head by simp
            qed
          qed
        qed
      qed
    qed
  qed
qed

text \<open>
  The two rules of the sample run return the same query list in every state.
\<close>

lemma sample_rules_independent:
  "\<forall>rule \<in> set [[DomainAlignment], [QRIDtoRID]].
     \<forall>clazz rest query_function setup_function rule_info.
        rule = clazz # rest
      \<and> fst (infer_rule clazz ''p'' ''d'' ''s'' '''' sample_kwargs world0)
          = Inr (query_function, setup_function, rule_info)
      \<longrightarrow> (\<forall>wa wb. fst (query_function wa) = fst (query_function wb))"
  by (auto simp: infer_rule_def get_custom_kwargs_def make_rule_info_def DomainAlignment_def
        QRIDtoRID_def CLEAN_ENGINE_REQUIRED_PARAMS_def sample_kwargs_def Let_def)

text \<open>
  A rule whose \<^verbatim>\<open>setup_rule\<close> finds the table its query is about: \<open>get_query_list\<close>, which
  does not call \<^verbatim>\<open>setup_rule\<close>, returns no query for it, while \<open>clean_dataset\<close>, which
  calls \<^verbatim>\<open>setup_rule\<close> before \<^verbatim>\<open>get_query_specs\<close>, obtains one query from it and runs it.
\<close>

theorem get_query_list_without_setup_counterexample:
  "fst (get_query_list ''p'' ''d'' ''s'' [[FoundTableRule]] '''' [] world0) = Inr []
   \<and> produced (snd (clean_dataset sample_externals ''p'' ''d'' ''s'' [[FoundTableRule]] '''' None []
                      world0))
       = [[[QUERY \<mapsto> PStr ''DELETE FROM person'']]]
   \<and> fst (clean_dataset sample_externals ''p'' ''d'' ''s'' [[FoundTableRule]] '''' None [] world0)
       = Inr [\<lparr>job_id = ''found_tabl_'',
               submitted_as = \<lparr>query = PStr ''DELETE FROM person'',
                  sub_job_config = QueryJobConfig, job_id_prefix = ''found_tabl_''\<rparr>,
               errors = []\<rparr>]"
  by (simp add: get_query_list_def clean_dataset_def infer_rule_def get_custom_kwargs_def
        make_rule_info_def run_queries_def generate_job_config_def dict_get_def
        dict_get_default_def query_args_def FoundTableRule_def rule_call_def
        CLEAN_ENGINE_REQUIRED_PARAMS_def sample_externals_def sample_warehouse_def
        world0_def QueryJobConfig_def Let_def)

text \<open>
  C6, amended. For every rule list and options in which each rule's query function, as
  \<open>infer_rule\<close> adapts it, returns the same in whatever state it is called (so that it
  depends neither on what \<^verbatim>\<open>setup_rule\<close> has done nor on what earlier queries have
  changed): the query lists \<open>clean_dataset\<close> obtains before it ends, by returning or by
  raising, are in order the first of the query lists \<open>get_query_list\<close> obtains for the same
  inputs, and what \<open>get_query_list\<close> returns, if it returns, is the concatenation of the
  lists it has obtained. When \<open>clean_dataset\<close> returns, the two have obtained the same
  lists, one per rule and in the order of the rules, each the list the rule's query
  function returns; \<open>get_query_list\<close> returns their concatenation; and the jobs
  \<open>clean_dataset\<close> returns are, query by query in that order, the jobs of these queries:
  each was submitted with the text of its query and the configuration built from it, and
  has no errors.
\<close>

theorem get_query_list_matches_clean_dataset:
  assumes "\<forall>rule \<in> set rules. \<forall>clazz rest query_function setup_function rule_info.
             rule = clazz # rest
           \<and> fst (infer_rule clazz project_id dataset_id sandbox_dataset_id table_namer kwargs w)
               = Inr (query_function, setup_function, rule_info)
           \<longrightarrow> (\<forall>wa wb. fst (query_function wa) = fst (query_function wb))"
  shows "\<exists>obtained more.
           produced (snd (clean_dataset ext project_id dataset_id sandbox_dataset_id rules
                            table_namer run_as kwargs w)) = produced w @ obtained
         \<and> produced (snd (get_query_list project_id dataset_id sandbox_dataset_id rules
                            table_namer kwargs wp)) = produced wp @ obtained @ more
         \<and> (\<forall>qs. fst (get_query_list project_id dataset_id sandbox_dataset_id rules
                          table_namer kwargs wp) = Inr qs
                \<longrightarrow> qs = concat (obtained @ more))
         \<and> (\<forall>all_jobs. fst (clean_dataset ext project_id dataset_id sandbox_dataset_id rules
                          table_namer run_as kwargs w) = Inr all_jobs
                \<longrightarrow> more = []
                  \<and> fst (get_query_list project_id dataset_id sandbox_dataset_id rules
                          table_namer kwargs wp) = Inr (concat obtained)
                  \<and> list_all2 (\<lambda>rule query_list.
                        \<exists>clazz rest query_function setup_function rule_info.
                           rule = clazz # rest
                         \<and> fst (infer_rule clazz project_id dataset_id sandbox_dataset_id
                                  table_namer kwargs w)
                             = Inr (query_function, setup_function, rule_info)
                         \<and> (\<forall>wq. fst (query_function wq) = Inr query_list))
                       rules obtained
                  \<and> list_all2 (\<lambda>query_dict job.
                        query (submitted_as job) = dict_get query_dict QUERY
                      \<and> generate_job_config (table_from_string ext) project_id query_dict
                          = Inr (sub_job_config (submitted_as job))
                      \<and> errors job = [])
                      (concat obtained) all_jobs)"
proof -
  let ?creds = "case run_as of
                  None \<Rightarrow> Inr None
                | Some address \<Rightarrow>
                    if address = [] then Inr None
                    else (case get_impersonation_credentials ext address of
                            Inl e \<Rightarrow> Inl e
                          | Inr creds \<Rightarrow> Inr (Some creds))"
  show ?thesis
  proof (cases ?creds)
    case (Inl e)
    then have ex: "clean_dataset ext project_id dataset_id sandbox_dataset_id rules table_namer
                     run_as kwargs w = (Inl e, w)"
      by (simp add: clean_dataset_def)
    from get_query_list_loop_produced
           [of project_id dataset_id sandbox_dataset_id table_namer kwargs rules "[]" wp]
    obtain more where
      "produced (snd (get_query_list_loop project_id dataset_id sandbox_dataset_id
                        table_namer kwargs rules [] wp)) = produced wp @ more"
      "\<forall>qs. fst (get_query_list_loop project_id dataset_id sandbox_dataset_id
                      table_namer kwargs rules [] wp) = Inr qs
            \<longrightarrow> qs = [] @ concat more"
      by blast
    then show ?thesis
      unfolding ex get_query_list_def
      by - (rule exI [of _ "[]"], rule exI [of _ more], simp)
  next
    case (Inr creds)
    let ?client = "\<lparr>project = project_id, credentials = creds, run_job = warehouse ext\<rparr>"
    have ex: "clean_dataset ext project_id dataset_id sandbox_dataset_id rules table_namer
                run_as kwargs w
              = clean_dataset_loop ext ?client project_id dataset_id sandbox_dataset_id
                  table_namer kwargs (length rules) 0 rules [] w"
      using Inr by (simp add: clean_dataset_def)
    from loops_parity [OF assms, of ext ?client "length rules" 0 "[]" w "[]" wp]
    show ?thesis
      unfolding ex get_query_list_def by simp
  qed
qed

theorem get_query_list_matches_clean_dataset_witness:
  "fst (clean_dataset sample_externals ''p'' ''d'' ''s'' [[DomainAlignment], [QRIDtoRID]]
          '''' None sample_kwargs world0) = Inr sample_jobs
   \<and> (\<exists>obtained.
          produced (snd (clean_dataset sample_externals ''p'' ''d'' ''s''
                           [[DomainAlignment], [QRIDtoRID]] '''' None sample_kwargs world0))
            = obtained
        \<and> produced (snd (get_query_list ''p'' ''d'' ''s'' [[DomainAlignment], [QRIDtoRID]]
                           '''' sample_kwargs world0)) = obtained
        \<and> fst (get_query_list ''p'' ''d'' ''s'' [[DomainAlignment], [QRIDtoRID]]
                 '''' sample_kwargs world0) = Inr (concat obtained)
        \<and> list_all2 (\<lambda>query_dict job.
              query (submitted_as job) = dict_get query_dict QUERY
            \<and> generate_job_config (table_from_string sample_externals) ''p'' query_dict
                = Inr (sub_job_config (submitted_as job))
            \<and> errors job = [])
            (concat obtained) sample_jobs)"
proof -
  let ?ex = "clean_dataset sample_externals ''p'' ''d'' ''s'' [[DomainAlignment], [QRIDtoRID]]
               '''' None sample_kwargs world0"
  let ?pr = "get_query_list ''p'' ''d'' ''s'' [[DomainAlignment], [QRIDtoRID]] ''''
               sample_kwargs world0"
  let ?P = "\<lambda>query_dict job.
              query (submitted_as job) = dict_get query_dict QUERY
            \<and> generate_job_config (table_from_string sample_externals) ''p'' query_dict
                = Inr (sub_job_config (submitted_as job))
            \<and> errors job = []"
  from get_query_list_matches_clean_dataset
         [OF sample_rules_independent,
          where ext = sample_externals and run_as = None and wp = world0]
  obtain obtained more where
    a: "produced (snd ?ex) = produced world0 @ obtained"
    and b: "produced (snd ?pr) = produced world0 @ obtained @ more"
    and d: "\<forall>all_jobs. fst ?ex = Inr all_jobs
              \<longrightarrow> more = [] \<and> fst ?pr = Inr (concat obtained)
                \<and> list_all2 (\<lambda>rule query_list.
                        \<exists>clazz rest query_function setup_function rule_info.
                           rule = clazz # rest
                         \<and> fst (infer_rule clazz ''p'' ''d'' ''s'' '''' sample_kwargs world0)
                             = Inr (query_function, setup_function, rule_info)
                         \<and> (\<forall>wq. fst (query_function wq) = Inr query_list))
                       [[DomainAlignment], [QRIDtoRID]] obtained
                \<and> list_all2 ?P (concat obtained) all_jobs"
    by blast
  from d sample_run have m: "more = []" and g: "fst ?pr = Inr (concat obtained)"
    and l: "list_all2 ?P (concat obtained) sample_jobs"
    by blast+
  have p0: "produced world0 = []"
    by (simp add: world0_def)
  from a b m p0 have "produced (snd ?ex) = obtained" "produced (snd ?pr) = obtained"
    by simp_all
  with sample_run g l show ?thesis
    by blast
qed

end
